theory Spec2Isabelle
  imports Main "HOL-Library.Word"
begin

unbundle bit_operations_syntax

section \<open>libndt.hpp: types and constants of the public header\<close>

text \<open>
  The C++ integer types of the header, by width: \<open>unsigned char\<close> and \<open>uint8_t\<close> are
  8-bit words, \<open>unsigned short\<close> is 16 bits, \<open>unsigned int\<close> is 32 bits, \<open>uint64_t\<close>
  is 64 bits. A literal such as \<open>1U << 7\<close> is computed at 32 bits and then converted to
  the declared type, which is what the definitions below do.
\<close>

type_synonym byte = "8 word"
type_synonym NettestFlags = "8 word"
type_synonym Verbosity = "32 word"
type_synonym ProtocolFlags = "32 word"
type_synonym Timeout = "32 word"
type_synonym MlabnsPolicy = "16 word"
type_synonym MsgType = "8 word"

subsection \<open>Subtest flags (libndt.hpp lines 65-85)\<close>

definition nettest_flag_middlebox :: NettestFlags where
  "nettest_flag_middlebox = ucast (push_bit 0 (1 :: 32 word))"

definition nettest_flag_upload :: NettestFlags where
  "nettest_flag_upload = ucast (push_bit 1 (1 :: 32 word))"

definition nettest_flag_download :: NettestFlags where
  "nettest_flag_download = ucast (push_bit 2 (1 :: 32 word))"

definition nettest_flag_simple_firewall :: NettestFlags where
  "nettest_flag_simple_firewall = ucast (push_bit 3 (1 :: 32 word))"

definition nettest_flag_status :: NettestFlags where
  "nettest_flag_status = ucast (push_bit 4 (1 :: 32 word))"

definition nettest_flag_meta :: NettestFlags where
  "nettest_flag_meta = ucast (push_bit 5 (1 :: 32 word))"

definition nettest_flag_upload_ext :: NettestFlags where
  "nettest_flag_upload_ext = ucast (push_bit 6 (1 :: 32 word))"

definition nettest_flag_download_ext :: NettestFlags where
  "nettest_flag_download_ext = ucast (push_bit 7 (1 :: 32 word))"

text \<open>The eight flags in the order the header declares them.\<close>

definition nettest_flags_all :: "NettestFlags list" where
  "nettest_flags_all =
     [nettest_flag_middlebox, nettest_flag_upload, nettest_flag_download,
      nettest_flag_simple_firewall, nettest_flag_status, nettest_flag_meta,
      nettest_flag_upload_ext, nettest_flag_download_ext]"

text \<open>
  A caller requests a combination of subtests by or-ing their flags into one
  \<open>NettestFlags\<close> value (\<open>Settings::nettest_flags\<close>); \<open>requested\<close> says which of
  the flags the caller wants.
\<close>

definition nettest_flags_of :: "(NettestFlags \<Rightarrow> bool) \<Rightarrow> NettestFlags" where
  "nettest_flags_of requested = fold (OR) (filter requested nettest_flags_all) 0"

subsection \<open>Verbosity, protocol flags, mlab-ns policies (lines 87-154)\<close>

definition verbosity_quiet :: Verbosity where "verbosity_quiet = 0"
definition verbosity_warning :: Verbosity where "verbosity_warning = 1"
definition verbosity_info :: Verbosity where "verbosity_info = 2"
definition verbosity_debug :: Verbosity where "verbosity_debug = 3"

definition ndt_version_compat :: string where
  "ndt_version_compat = ''v3.7.0''"

definition protocol_flag_json :: ProtocolFlags where
  "protocol_flag_json = push_bit 0 1"

definition protocol_flag_tls :: ProtocolFlags where
  "protocol_flag_tls = push_bit 1 1"

definition protocol_flag_websocket :: ProtocolFlags where
  "protocol_flag_websocket = push_bit 2 1"

definition mlabns_policy_closest :: MlabnsPolicy where "mlabns_policy_closest = 0"
definition mlabns_policy_random :: MlabnsPolicy where "mlabns_policy_random = 1"
definition mlabns_policy_geo_options :: MlabnsPolicy where "mlabns_policy_geo_options = 2"

subsection \<open>Settings (lines 156-218)\<close>

record Settings =
  mlabns_base_url :: string
  mlabns_policy :: MlabnsPolicy
  timeout :: Timeout
  hostname :: string
  port :: string
  nettest_flags :: NettestFlags
  verbosity :: Verbosity
  metadata :: "string \<rightharpoonup> string"
  protocol_flags :: ProtocolFlags
  max_runtime :: Timeout
  socks5h_port :: string
  ca_bundle_path :: string
  tls_verify_peer :: bool

text \<open>
  A default-constructed \<open>Settings\<close>: every member takes its default member initialiser;
  a \<open>std::string\<close> without one is empty.
\<close>

definition Settings_default :: Settings where
  "Settings_default =
     \<lparr> mlabns_base_url = ''https://mlab-ns.appspot.com'',
       mlabns_policy = mlabns_policy_geo_options,
       timeout = 7,
       hostname = '''',
       port = '''',
       nettest_flags = nettest_flag_download,
       verbosity = verbosity_quiet,
       metadata = map_of [(''client.version'', ndt_version_compat),
                          (''client.application'', ''measurement-kit/libndt'')],
       protocol_flags = 0,
       max_runtime = 14,
       socks5h_port = '''',
       ca_bundle_path = '''',
       tls_verify_peer = True \<rparr>"

subsection \<open>Error codes (lines 587-633)\<close>

datatype Err =
    none
  | broken_pipe
  | connection_aborted
  | connection_refused
  | connection_reset
  | function_not_supported
  | host_unreachable
  | interrupted
  | invalid_argument
  | io_error
  | message_size
  | network_down
  | network_reset
  | network_unreachable
  | operation_in_progress
  | operation_would_block
  | timed_out
  | value_too_large
  | ai_generic
  | ai_again
  | ai_fail
  | ai_noname
  | ssl_generic
  | ssl_want_read
  | ssl_want_write
  | ssl_syscall
  | eof
  | socks5h
  | ws_proto

subsection \<open>NDT message types (lines 635-650)\<close>

definition msg_comm_failure :: MsgType where "msg_comm_failure = 0"
definition msg_srv_queue :: MsgType where "msg_srv_queue = 1"
definition msg_login :: MsgType where "msg_login = 2"
definition msg_test_prepare :: MsgType where "msg_test_prepare = 3"
definition msg_test_start :: MsgType where "msg_test_start = 4"
definition msg_test_msg :: MsgType where "msg_test_msg = 5"
definition msg_test_finalize :: MsgType where "msg_test_finalize = 6"
definition msg_error :: MsgType where "msg_error = 7"
definition msg_results :: MsgType where "msg_results = 8"
definition msg_logout :: MsgType where "msg_logout = 9"
definition msg_waiting :: MsgType where "msg_waiting = 10"
definition msg_extended_login :: MsgType where "msg_extended_login = 11"

text \<open>The message types in the order the header declares them.\<close>

definition msg_types_all :: "MsgType list" where
  "msg_types_all =
     [msg_comm_failure, msg_srv_queue, msg_login, msg_test_prepare, msg_test_start,
      msg_test_msg, msg_test_finalize, msg_error, msg_results, msg_logout, msg_waiting,
      msg_extended_login]"

subsection \<open>WebSocket constants (lines 652-684)\<close>

definition ws_opcode_continue :: byte where "ws_opcode_continue = 0"
definition ws_opcode_text :: byte where "ws_opcode_text = 1"
definition ws_opcode_binary :: byte where "ws_opcode_binary = 2"
definition ws_opcode_close :: byte where "ws_opcode_close = 8"
definition ws_opcode_ping :: byte where "ws_opcode_ping = 9"
definition ws_opcode_pong :: byte where "ws_opcode_pong = 10"

definition ws_fin_flag :: byte where "ws_fin_flag = 0x80"
definition ws_reserved_mask :: byte where "ws_reserved_mask = 0x70"
definition ws_opcode_mask :: byte where "ws_opcode_mask = 0x0f"
definition ws_mask_flag :: byte where "ws_mask_flag = 0x80"
definition ws_len_mask :: byte where "ws_len_mask = 0x7f"

text \<open>\<open>1 << k\<close> is an \<open>int\<close>, converted to \<open>uint64_t\<close> with sign extension.\<close>

definition ws_f_connection :: "64 word" where
  "ws_f_connection = scast (push_bit 0 (1 :: 32 word))"

definition ws_f_sec_ws_accept :: "64 word" where
  "ws_f_sec_ws_accept = scast (push_bit 1 (1 :: 32 word))"

definition ws_f_sec_ws_protocol :: "64 word" where
  "ws_f_sec_ws_protocol = scast (push_bit 2 (1 :: 32 word))"

definition ws_f_upgrade :: "64 word" where
  "ws_f_upgrade = scast (push_bit 3 (1 :: 32 word))"

definition ws_proto_control :: string where "ws_proto_control = ''ndt''"
definition ws_proto_c2s :: string where "ws_proto_c2s = ''c2s''"
definition ws_proto_s2c :: string where "ws_proto_s2c = ''s2c''"

section \<open>MsgCodec: the legacy wire encoding\<close>

text \<open>
  The header declares \<open>msg_write_legacy\<close> and \<open>msg_read_legacy\<close> (lines 349 and 360)
  and leaves their bodies to the implementation file, so the codec is modelled from the
  specification's description of the wire format. The connection is a loopback byte
  pipe: what the writer sends is what the reader receives, in order.
\<close>

type_synonym loopback = "byte list"

text \<open>
  Modelled from the spec: the body of \<open>netx_sendn\<close> is missing; on the loopback pipe
  sending exactly the given bytes appends them to the bytes in flight.
\<close>

definition loopback_sendn :: "byte list \<Rightarrow> loopback \<Rightarrow> Err \<times> loopback" where
  "loopback_sendn bs s = (none, s @ bs)"

text \<open>
  Modelled from the spec: the body of \<open>netx_recvn\<close> is missing; on the loopback pipe
  receiving exactly \<open>n\<close> bytes takes them from the front, and a pipe that ends before
  \<open>n\<close> bytes have arrived gives \<open>eof\<close> ("0 from recv is eof").
\<close>

definition loopback_recvn :: "nat \<Rightarrow> loopback \<Rightarrow> (Err + byte list) \<times> loopback" where
  "loopback_recvn n s =
     (if n \<le> length s then (Inr (take n s), drop n s) else (Inl eof, []))"

text \<open>The 16-bit length of the header, most significant byte first.\<close>

definition u16_be :: "16 word \<Rightarrow> byte list" where
  "u16_be w = [ucast (drop_bit 8 w), ucast w]"

definition u16_of_be :: "byte \<Rightarrow> byte \<Rightarrow> 16 word" where
  "u16_of_be hi lo = push_bit 8 (ucast hi) OR ucast lo"

text \<open>
  Modelled from the spec: the body of \<open>msg_write_legacy\<close> is missing. "Legacy wire:
  header [type:u8][length:u16 big-endian][payload:length bytes]. msg_write_legacy(type,
  payload) fails with message_size if payload > 65535 bytes." The result is the error
  kind the specification names and the pipe after the call.
\<close>

definition msg_write_legacy_err :: "MsgType \<Rightarrow> byte list \<Rightarrow> loopback \<Rightarrow> Err \<times> loopback" where
  "msg_write_legacy_err code msg s =
     (if 65535 < length msg then (message_size, s)
      else
        (case loopback_sendn (code # u16_be (of_nat (length msg))) s of
           (e, s1) \<Rightarrow> if e \<noteq> none then (e, s1) else loopback_sendn msg s1))"

text \<open>
  The declaration at line 349 returns \<open>bool\<close>: true when the message was written.
\<close>

definition msg_write_legacy :: "MsgType \<Rightarrow> byte list \<Rightarrow> loopback \<Rightarrow> bool \<times> loopback" where
  "msg_write_legacy code msg s =
     (case msg_write_legacy_err code msg s of (e, s1) \<Rightarrow> (e = none, s1))"

text \<open>
  Modelled from the spec: the body of \<open>msg_read_legacy\<close> is missing. It reads the three
  header bytes, then as many payload bytes as the header's big-endian length says, and
  gives the type byte and the payload.
\<close>

definition msg_read_legacy_err :: "loopback \<Rightarrow> (Err + MsgType \<times> byte list) \<times> loopback" where
  "msg_read_legacy_err s =
     (case loopback_recvn 3 s of
        (Inl e, s1) \<Rightarrow> (Inl e, s1)
      | (Inr header, s1) \<Rightarrow>
          (case loopback_recvn (unat (u16_of_be (header ! 1) (header ! 2))) s1 of
             (Inl e, s2) \<Rightarrow> (Inl e, s2)
           | (Inr msg, s2) \<Rightarrow> (Inr (header ! 0, msg), s2)))"

text \<open>
  The declaration at line 360 returns \<open>bool\<close> and fills \<open>*code\<close> and \<open>*msg\<close> on
  success: an option of the pair.
\<close>

definition msg_read_legacy :: "loopback \<Rightarrow> (MsgType \<times> byte list) option \<times> loopback" where
  "msg_read_legacy s =
     (case msg_read_legacy_err s of
        (Inl e, s1) \<Rightarrow> (None, s1)
      | (Inr m, s1) \<Rightarrow> (Some m, s1))"

section \<open>NetIO: receiving and sending exactly N bytes\<close>

text \<open>
  The header declares the networking methods of \<open>Client\<close> as virtual (lines 457-490)
  so that tests can replace them; their bodies are in the implementation file. The
  methods the two loops call are therefore parameters: a record of functions over a
  state \<open>'w\<close> of the outside world. A nonblocking transfer is asked for a number of
  bytes and answers with an error and the number of bytes it moved; a wait is given
  the timeout in seconds and answers with an error.
\<close>

record 'w netio =
  netx_recv_nonblocking :: "'w \<Rightarrow> nat \<Rightarrow> (Err \<times> nat) \<times> 'w"
  netx_send_nonblocking :: "'w \<Rightarrow> nat \<Rightarrow> (Err \<times> nat) \<times> 'w"
  netx_wait_readable :: "'w \<Rightarrow> Timeout \<Rightarrow> Err \<times> 'w"
  netx_wait_writeable :: "'w \<Rightarrow> Timeout \<Rightarrow> Err \<times> 'w"

text \<open>
  Modelled from the spec: the bodies of \<open>netx_recvn\<close> and \<open>netx_sendn\<close> are missing.
  "recvn/sendn: loop over nonblocking variant, awaiting readability/writability up to
  the I/O timeout per wait, until exactly N bytes are moved or an error surfaces.
  Partial progress on timeout returns timed_out." A wait maps "EINTR to interrupted
  (caller retries), timeout to timed_out". \<open>off\<close> counts the bytes moved so far. The
  world may answer \<open>operation_would_block\<close> for ever, so the loop takes fuel, one unit
  for each iteration. \<open>Returned err moved w\<close> is a call that has returned \<open>err\<close> after
  moving \<open>moved\<close> bytes, leaving the world \<open>w\<close>; \<open>Running off w\<close> is a call that, when
  the fuel ran out, was still in its loop with \<open>off\<close> bytes moved.
\<close>

datatype 'w netx_outcome = Returned Err nat 'w | Running nat 'w

fun netx_loop ::
  "nat \<Rightarrow> ('w \<Rightarrow> nat \<Rightarrow> (Err \<times> nat) \<times> 'w) \<Rightarrow> ('w \<Rightarrow> Timeout \<Rightarrow> Err \<times> 'w) \<Rightarrow> Timeout \<Rightarrow>
   'w \<Rightarrow> nat \<Rightarrow> nat \<Rightarrow> 'w netx_outcome" where
  "netx_loop fuel xfer await tmo w count off =
     (if \<not> off < count then Returned none off w
      else
        (case fuel of
           0 \<Rightarrow> Running off w
         | Suc fuel' \<Rightarrow>
             (case xfer w (count - off) of
                ((err, n), w1) \<Rightarrow>
                  if err = none then netx_loop fuel' xfer await tmo w1 count (off + n)
                  else if err = operation_would_block then
                    (case await w1 tmo of
                       (err2, w2) \<Rightarrow>
                         if err2 = none \<or> err2 = interrupted
                         then netx_loop fuel' xfer await tmo w2 count off
                         else Returned err2 off w2)
                  else Returned err off w1)))"

declare netx_loop.simps [simp del]

text \<open>
  Modelled from the spec: \<open>netx_recvn\<close> (line 466) is the loop over
  \<open>netx_recv_nonblocking\<close> that awaits readability, with the timeout of the settings.
\<close>

definition netx_recvn ::
  "nat \<Rightarrow> 'w netio \<Rightarrow> Settings \<Rightarrow> 'w \<Rightarrow> nat \<Rightarrow> 'w netx_outcome" where
  "netx_recvn fuel io settings w count =
     netx_loop fuel (netx_recv_nonblocking io) (netx_wait_readable io) (timeout settings)
       w count 0"

text \<open>
  Modelled from the spec: \<open>netx_sendn\<close> (line 477) is the loop over
  \<open>netx_send_nonblocking\<close> that awaits writability, with the timeout of the settings.
\<close>

definition netx_sendn ::
  "nat \<Rightarrow> 'w netio \<Rightarrow> Settings \<Rightarrow> 'w \<Rightarrow> nat \<Rightarrow> 'w netx_outcome" where
  "netx_sendn fuel io settings w count =
     netx_loop fuel (netx_send_nonblocking io) (netx_wait_writeable io) (timeout settings)
       w count 0"

text \<open>
  What the operating system promises of a transfer: one that succeeds moves no more
  bytes than it was asked for (\<open>xfer_contract\<close>), and at least one, since "0 from recv
  is eof" (\<open>xfer_progress\<close>). \<open>ready_after_wait\<close> says that a wait which lets the loop
  go on is followed by a transfer that does not report \<open>operation_would_block\<close>.
\<close>

definition xfer_contract :: "('w \<Rightarrow> nat \<Rightarrow> (Err \<times> nat) \<times> 'w) \<Rightarrow> bool" where
  "xfer_contract xfer = (\<forall>w n k w'. xfer w n = ((none, k), w') \<longrightarrow> k \<le> n)"

definition xfer_progress :: "('w \<Rightarrow> nat \<Rightarrow> (Err \<times> nat) \<times> 'w) \<Rightarrow> bool" where
  "xfer_progress xfer = (\<forall>w n k w'. xfer w n = ((none, k), w') \<longrightarrow> 0 < k)"

definition ready_after_wait ::
  "('w \<Rightarrow> nat \<Rightarrow> (Err \<times> nat) \<times> 'w) \<Rightarrow> ('w \<Rightarrow> Timeout \<Rightarrow> Err \<times> 'w) \<Rightarrow> Timeout \<Rightarrow> bool" where
  "ready_after_wait xfer await tmo =
     (\<forall>w n. fst (await w tmo) = none \<or> fst (await w tmo) = interrupted \<longrightarrow>
        fst (fst (xfer (snd (await w tmo)) n)) \<noteq> operation_would_block)"

text \<open>
  A scripted socket, as a test would mock one: \<open>Data k\<close> says that \<open>k\<close> bytes can be
  moved now, \<open>Stall e\<close> that the socket is not ready and that the wait for it answers
  \<open>e\<close>. A script that has run out is a closed connection.
\<close>

datatype sock_event = Data nat | Stall Err

definition mock_xfer :: "sock_event list \<Rightarrow> nat \<Rightarrow> (Err \<times> nat) \<times> sock_event list" where
  "mock_xfer w n =
     (case w of
        [] \<Rightarrow> ((eof, 0), [])
      | Data k # r \<Rightarrow>
          if k = 0 \<or> n = 0 then ((eof, 0), r)
          else if k \<le> n then ((none, k), r)
          else ((none, n), Data (k - n) # r)
      | Stall e # r \<Rightarrow> ((operation_would_block, 0), w))"

definition mock_wait :: "sock_event list \<Rightarrow> Timeout \<Rightarrow> Err \<times> sock_event list" where
  "mock_wait w tmo = (case w of Stall e # r \<Rightarrow> (e, r) | _ \<Rightarrow> (none, w))"

definition mock_io :: "sock_event list netio" where
  "mock_io = \<lparr> netx_recv_nonblocking = mock_xfer, netx_send_nonblocking = mock_xfer,
               netx_wait_readable = mock_wait, netx_wait_writeable = mock_wait \<rparr>"

section \<open>WsLayer: control frames\<close>

text \<open>
  A frame as \<open>ws_recv_any_frame\<close> finds it on the wire: the FIN bit, the reserved bits
  and the opcode of the first byte, the mask bit of the second, and the payload.
\<close>

record ws_frame =
  fin :: bool
  reserved :: byte
  opcode :: byte
  masked :: bool
  payload :: "byte list"

text \<open>A frame of the server with the given first byte, read with the header's masks.\<close>

definition ws_server_frame :: "byte \<Rightarrow> byte list \<Rightarrow> ws_frame" where
  "ws_server_frame first_byte bytes =
     \<lparr> fin = (first_byte AND ws_fin_flag \<noteq> 0),
       reserved = first_byte AND ws_reserved_mask,
       opcode = first_byte AND ws_opcode_mask,
       masked = False,
       payload = bytes \<rparr>"

text \<open>
  The connection: the frames the server has sent and the client has not yet received,
  and the frames the client has emitted, oldest first, each as the first byte and the
  payload that \<open>ws_send_frame\<close> was given.
\<close>

record ws_conn =
  incoming :: "ws_frame list"
  sent :: "(byte \<times> byte list) list"

text \<open>
  Modelled from the spec: the body of \<open>ws_send_frame\<close> (line 383) is missing. "Caller
  supplies the complete first byte"; the frame is emitted. The specification does not
  say what a failed emission does, and this connection accepts every frame.
\<close>

definition ws_send_frame :: "ws_conn \<Rightarrow> byte \<Rightarrow> byte list \<Rightarrow> Err \<times> ws_conn" where
  "ws_send_frame conn first_byte bytes =
     (none, conn\<lparr>sent := sent conn @ [(first_byte, bytes)]\<rparr>)"

text \<open>
  Modelled from the spec: the body of \<open>ws_recv_any_frame\<close> (line 390) is missing.
  "Parse header; reject non-zero reserved bits or mask bit set from server; fail with
  message_size if count > total (caller's buffer capacity)." When the server has sent
  nothing more the connection is at its end.
\<close>

definition ws_recv_any_frame :: "ws_conn \<Rightarrow> nat \<Rightarrow> (Err + ws_frame) \<times> ws_conn" where
  "ws_recv_any_frame conn total_len =
     (case incoming conn of
        [] \<Rightarrow> (Inl eof, conn)
      | f # fs \<Rightarrow>
          if reserved f \<noteq> 0 \<or> masked f then (Inl ws_proto, conn\<lparr>incoming := fs\<rparr>)
          else if total_len < length (payload f)
          then (Inl message_size, conn\<lparr>incoming := fs\<rparr>)
          else (Inr f, conn\<lparr>incoming := fs\<rparr>))"

text \<open>
  Modelled from the spec: the body of \<open>ws_recv_frame\<close> (line 395) is missing. "On
  receiving a PING, immediately emit a PONG with the same payload; on PONG, discard; on
  CLOSE, emit a CLOSE back and return eof. Otherwise return the data frame to caller."
  The header's comment: "Receive a frame. Automatically and transparently responds to
  PING, ignores PONG, and handles CLOSE frames." After a PING or a PONG the call goes on
  to the next frame. A control frame is emitted whole, with the FIN flag in its first
  byte, and a PONG that cannot be emitted ends the call with the error of the emission.
\<close>

function ws_recv_frame :: "ws_conn \<Rightarrow> nat \<Rightarrow> (Err + ws_frame) \<times> ws_conn" where
  "ws_recv_frame conn total_len =
     (case ws_recv_any_frame conn total_len of
        (Inl err, c1) \<Rightarrow> (Inl err, c1)
      | (Inr f, c1) \<Rightarrow>
          if opcode f = ws_opcode_close then
            (Inl eof, snd (ws_send_frame c1 (ws_opcode_close OR ws_fin_flag) []))
          else if opcode f = ws_opcode_pong then ws_recv_frame c1 total_len
          else if opcode f = ws_opcode_ping then
            (case ws_send_frame c1 (ws_opcode_pong OR ws_fin_flag) (payload f) of
               (err, c2) \<Rightarrow> if err \<noteq> none then (Inl err, c2) else ws_recv_frame c2 total_len)
          else (Inr f, c1))"
  by pat_completeness auto
termination
  by (relation "measure (\<lambda>(conn, total_len). length (incoming conn))")
     (auto simp: ws_recv_any_frame_def ws_send_frame_def split: list.splits if_splits)

declare ws_recv_frame.simps [simp del]

text \<open>A frame that \<open>ws_recv_any_frame\<close> accepts into a buffer of \<open>total_len\<close> bytes.\<close>

definition ws_receivable :: "nat \<Rightarrow> ws_frame \<Rightarrow> bool" where
  "ws_receivable total_len f =
     (reserved f = 0 \<and> \<not> masked f \<and> length (payload f) \<le> total_len)"

text \<open>
  The PONG frames that answer the PING frames of \<open>fs\<close>: one for each PING, in the same
  order, with the same payload.
\<close>

definition ws_pongs_for :: "ws_frame list \<Rightarrow> (byte \<times> byte list) list" where
  "ws_pongs_for fs =
     map (\<lambda>c. (ws_opcode_pong OR ws_fin_flag, payload c))
       (filter (\<lambda>c. opcode c = ws_opcode_ping) fs)"

section \<open>MsgCodec: expecting TEST_PREPARE\<close>

text \<open>
  The header declares \<open>msg_expect\<close> and \<open>msg_expect_test_prepare\<close> (lines 351-356) and
  \<open>sys_strtonum\<close> (line 562); their bodies are in the implementation file. A payload is
  a \<open>std::string\<close>, a list of bytes written here as characters.
\<close>

definition is_space_char :: "char \<Rightarrow> bool" where
  "is_space_char c =
     ((of_char c :: nat) = 32 \<or> (9 \<le> (of_char c :: nat) \<and> (of_char c :: nat) \<le> 13))"

definition is_digit_char :: "char \<Rightarrow> bool" where
  "is_digit_char c = (48 \<le> (of_char c :: nat) \<and> (of_char c :: nat) \<le> 57)"

text \<open>
  Modelled from the spec: the splitting of the payload is in the missing body of
  \<open>msg_expect_test_prepare\<close>, which "parses the test-prepare payload as
  whitespace/space-separated decimals". The fields are the maximal runs of characters
  that are not whitespace; \<open>cur\<close> is the field being read.
\<close>

fun fields_from :: "string \<Rightarrow> string \<Rightarrow> string list" where
  "fields_from cur [] = (if cur = [] then [] else [cur])"
| "fields_from cur (c # cs) =
     (if is_space_char c
      then (if cur = [] then fields_from [] cs else cur # fields_from [] cs)
      else fields_from (cur @ [c]) cs)"

definition split_fields :: "string \<Rightarrow> string list" where
  "split_fields s = fields_from [] s"

text \<open>The number a string of decimal digits writes.\<close>

definition dec_value :: "string \<Rightarrow> nat" where
  "dec_value s = foldl (\<lambda>a c. 10 * a + ((of_char c :: nat) - 48)) 0 s"

text \<open>
  Modelled from the spec: the body of \<open>sys_strtonum\<close> is missing; it is a "bounded
  integer parse with an error-reason string". A string of decimal digits within the
  bounds gives its value, anything else the reason.
\<close>

definition sys_strtonum :: "string \<Rightarrow> int \<Rightarrow> int \<Rightarrow> string + int" where
  "sys_strtonum s minval maxval =
     (if maxval < minval then Inl ''invalid''
      else if s = [] \<or> \<not> list_all is_digit_char s then Inl ''invalid''
      else if int (dec_value s) < minval then Inl ''too small''
      else if maxval < int (dec_value s) then Inl ''too large''
      else Inr (int (dec_value s)))"

text \<open>
  Modelled from the spec: the body of \<open>msg_expect\<close> is missing. It reads a message,
  here the outcome \<open>received\<close> of \<open>msg_read\<close>, and succeeds with the payload when the
  message has the expected type.
\<close>

definition msg_expect :: "MsgType \<Rightarrow> (MsgType \<times> string) option \<Rightarrow> string option" where
  "msg_expect code received =
     (case received of
        None \<Rightarrow> None
      | Some (c, msg) \<Rightarrow> if c = code then Some msg else None)"

text \<open>
  Modelled from the spec: the body of \<open>msg_expect_test_prepare\<close> is missing. It "parses
  the test-prepare payload as whitespace/space-separated decimals yielding port
  (required, 1..65535) and nflows (optional, default 1, clamped to a sane max such as 16
  for _ext variants)"; scenario 3 has the payload "3010 3" for three flows. The
  specification names no fixed maximum, so \<open>max_nflows\<close> is a parameter. As the header
  declares, the port is given back as the string and the number of flows as a
  \<open>uint8_t\<close>.
\<close>

definition msg_expect_test_prepare ::
  "nat \<Rightarrow> (MsgType \<times> string) option \<Rightarrow> (string \<times> 8 word) option" where
  "msg_expect_test_prepare max_nflows received =
     (case msg_expect msg_test_prepare received of
        None \<Rightarrow> None
      | Some message \<Rightarrow>
          (case split_fields message of
             [] \<Rightarrow> None
           | pport # options \<Rightarrow>
               (case sys_strtonum pport 1 65535 of
                  Inl reason \<Rightarrow> None
                | Inr p \<Rightarrow>
                    (case options of
                       [] \<Rightarrow> Some (pport, 1)
                     | nf # others \<Rightarrow>
                         if nf \<noteq> [] \<and> list_all is_digit_char nf
                         then Some (pport, of_nat (min (dec_value nf) max_nflows))
                         else None))))"

section \<open>WsLayer: the handshake\<close>

text \<open>
  The header declares \<open>ws_handshake\<close> (line 378) and the flags that say which headers
  of the response are required (lines 676-679); the body is in the implementation
  file. SHA-1 and base64 come from a cryptographic library and the key from a random
  number generator: they are parameters.
\<close>

definition ascii_tolower :: "char \<Rightarrow> char" where
  "ascii_tolower c =
     (if 65 \<le> (of_char c :: nat) \<and> (of_char c :: nat) \<le> 90
      then char_of (of_char c + 32 :: nat) else c)"

fun str_contains :: "string \<Rightarrow> string \<Rightarrow> bool" where
  "str_contains pat [] = (pat = [])"
| "str_contains pat (c # cs) = (take (length pat) (c # cs) = pat \<or> str_contains pat cs)"

text \<open>
  A header line is a name, a colon and a value; names are compared without regard to
  case, and the spaces after the colon are not part of the value.
\<close>

definition ws_header_name :: "string \<Rightarrow> string" where
  "ws_header_name line = map ascii_tolower (takeWhile (\<lambda>c. c \<noteq> CHR '':'') line)"

definition ws_header_value :: "string \<Rightarrow> string" where
  "ws_header_value line =
     dropWhile (\<lambda>c. c = CHR '' '') (drop 1 (dropWhile (\<lambda>c. c \<noteq> CHR '':'') line))"

definition ws_guid :: string where
  "ws_guid = ''258EAFA5-E914-47DA-95CA-C5AB0DC85B11''"

definition ws_f_all :: "64 word list" where
  "ws_f_all = [ws_f_connection, ws_f_sec_ws_accept, ws_f_sec_ws_protocol, ws_f_upgrade]"

text \<open>
  Modelled from the spec: the validation is in the missing body of \<open>ws_handshake\<close>.
  "Upgrade case-insensitively equals websocket; Connection contains Upgrade;
  Sec-WebSocket-Accept equals base64(SHA1(key + 258EAFA5-E914-47DA-95CA-C5AB0DC85B11));
  Sec-WebSocket-Protocol echoes what was offered." For a line that is one of the four
  headers the result is the header's flag and whether the value is valid.
\<close>

definition ws_check_line ::
  "(string \<Rightarrow> string) \<Rightarrow> (string \<Rightarrow> string) \<Rightarrow> string \<Rightarrow> string \<Rightarrow> string \<Rightarrow>
   (64 word \<times> bool) option" where
  "ws_check_line sha1 base64 key ws_protocol line =
     (if ws_header_name line = ''upgrade''
      then Some (ws_f_upgrade, map ascii_tolower (ws_header_value line) = ''websocket'')
      else if ws_header_name line = ''connection''
      then Some (ws_f_connection, str_contains ''Upgrade'' (ws_header_value line))
      else if ws_header_name line = ''sec-websocket-accept''
      then Some (ws_f_sec_ws_accept, ws_header_value line = base64 (sha1 (key @ ws_guid)))
      else if ws_header_name line = ''sec-websocket-protocol''
      then Some (ws_f_sec_ws_protocol, ws_header_value line = ws_protocol)
      else None)"

text \<open>
  Modelled from the spec: the reading of the response is in the missing body of
  \<open>ws_handshake\<close>. "Read a header block line-by-line until a blank line. Require
  presence of headers indicated by the caller-supplied flag set, with values validated.
  Any mismatch is ws_proto." \<open>seen\<close> collects the flags of the required headers that
  were present and valid; the lines are those that \<open>ws_recvln\<close> delivers, and a
  response that ends before its blank line is a connection at its end.
\<close>

fun ws_handshake_headers ::
  "(string \<Rightarrow> (64 word \<times> bool) option) \<Rightarrow> 64 word \<Rightarrow> 64 word \<Rightarrow> string list \<Rightarrow> Err" where
  "ws_handshake_headers check ws_flags seen [] = eof"
| "ws_handshake_headers check ws_flags seen (line # lines) =
     (if line = [] then (if seen AND ws_flags = ws_flags then none else ws_proto)
      else
        (case check line of
           None \<Rightarrow> ws_handshake_headers check ws_flags seen lines
         | Some (flag, valid) \<Rightarrow>
             if ws_flags AND flag = 0 then ws_handshake_headers check ws_flags seen lines
             else if valid then ws_handshake_headers check ws_flags (seen OR flag) lines
             else ws_proto))"

text \<open>
  Modelled from the spec: \<open>ws_handshake\<close> on the response of the server to the upgrade
  request that carried \<open>key\<close> and offered \<open>ws_protocol\<close>. The request itself, whose
  sending the specification describes, is not part of the result.
\<close>

definition ws_handshake ::
  "(string \<Rightarrow> string) \<Rightarrow> (string \<Rightarrow> string) \<Rightarrow> string \<Rightarrow> string list \<Rightarrow> 64 word \<Rightarrow> string \<Rightarrow> Err" where
  "ws_handshake sha1 base64 key response ws_flags ws_protocol =
     ws_handshake_headers (ws_check_line sha1 base64 key ws_protocol) ws_flags 0 response"

section \<open>Properties of the constants and of the default settings\<close>

lemmas nettest_flag_defs =
  nettest_flag_middlebox_def nettest_flag_upload_def nettest_flag_download_def
  nettest_flag_simple_firewall_def nettest_flag_status_def nettest_flag_meta_def
  nettest_flag_upload_ext_def nettest_flag_download_ext_def

lemmas msg_type_defs =
  msg_comm_failure_def msg_srv_queue_def msg_login_def msg_test_prepare_def
  msg_test_start_def msg_test_msg_def msg_test_finalize_def msg_error_def
  msg_results_def msg_logout_def msg_waiting_def msg_extended_login_def

text \<open>
  C6. The NDT message type constants have the codes of the protocol: comm_failure is 0,
  srv_queue 1, login 2, test_prepare 3, test_start 4, test_msg 5, test_finalize 6,
  error 7, results 8, logout 9, waiting 10 and extended_login 11, read as unsigned
  bytes. Listed in the header's order they are the codes 0 to 11.
\<close>

theorem msg_type_codes:
  "unat msg_comm_failure = 0 \<and> unat msg_srv_queue = 1 \<and> unat msg_login = 2 \<and>
   unat msg_test_prepare = 3 \<and> unat msg_test_start = 4 \<and> unat msg_test_msg = 5 \<and>
   unat msg_test_finalize = 6 \<and> unat msg_error = 7 \<and> unat msg_results = 8 \<and>
   unat msg_logout = 9 \<and> unat msg_waiting = 10 \<and> unat msg_extended_login = 11 \<and>
   map unat msg_types_all = [0 ..< 12]"
  by (simp add: msg_types_all_def msg_type_defs upt_rec)

text \<open>
  C7. The eight subtest flags are single bits in the listed order: middlebox is bit 0,
  upload bit 1, download bit 2, simple_firewall bit 3, status bit 4, meta bit 5,
  upload_ext bit 6 and download_ext bit 7. They are pairwise distinct, and every
  combination of requested subtests is represented in one \<open>NettestFlags\<close> value: the
  or of the requested flags has the bit of a subtest set exactly when that subtest was
  requested.
\<close>

theorem nettest_flags_single_bits:
  "nettest_flag_middlebox = 2 ^ 0 \<and> nettest_flag_upload = 2 ^ 1 \<and>
   nettest_flag_download = 2 ^ 2 \<and> nettest_flag_simple_firewall = 2 ^ 3 \<and>
   nettest_flag_status = 2 ^ 4 \<and> nettest_flag_meta = 2 ^ 5 \<and>
   nettest_flag_upload_ext = 2 ^ 6 \<and> nettest_flag_download_ext = 2 ^ 7 \<and>
   distinct nettest_flags_all \<and>
   (nettest_flags_of requested AND nettest_flag_middlebox \<noteq> 0) = requested nettest_flag_middlebox \<and>
   (nettest_flags_of requested AND nettest_flag_upload \<noteq> 0) = requested nettest_flag_upload \<and>
   (nettest_flags_of requested AND nettest_flag_download \<noteq> 0) = requested nettest_flag_download \<and>
   (nettest_flags_of requested AND nettest_flag_simple_firewall \<noteq> 0) =
      requested nettest_flag_simple_firewall \<and>
   (nettest_flags_of requested AND nettest_flag_status \<noteq> 0) = requested nettest_flag_status \<and>
   (nettest_flags_of requested AND nettest_flag_meta \<noteq> 0) = requested nettest_flag_meta \<and>
   (nettest_flags_of requested AND nettest_flag_upload_ext \<noteq> 0) = requested nettest_flag_upload_ext \<and>
   (nettest_flags_of requested AND nettest_flag_download_ext \<noteq> 0) =
      requested nettest_flag_download_ext"
  by (simp add: nettest_flags_of_def nettest_flags_all_def nettest_flag_defs)

text \<open>
  C8. A default-constructed \<open>Settings\<close> has an I/O timeout of 7 seconds and a maximum
  subtest runtime of 14 seconds.
\<close>

theorem settings_default_timeouts:
  "unat (timeout Settings_default) = 7 \<and> unat (max_runtime Settings_default) = 14"
  by (simp add: Settings_default_def)

text \<open>
  C9. A default-constructed \<open>Settings\<close> requests the download subtest only:
  \<open>nettest_flags\<close> is \<open>nettest_flag_download\<close>, whose one bit is bit 2, and the bit of
  each of the other seven subtests is clear.
\<close>

theorem settings_default_download_only:
  "nettest_flags Settings_default = nettest_flag_download \<and>
   nettest_flags Settings_default AND nettest_flag_download \<noteq> 0 \<and>
   nettest_flags Settings_default AND nettest_flag_middlebox = 0 \<and>
   nettest_flags Settings_default AND nettest_flag_upload = 0 \<and>
   nettest_flags Settings_default AND nettest_flag_simple_firewall = 0 \<and>
   nettest_flags Settings_default AND nettest_flag_status = 0 \<and>
   nettest_flags Settings_default AND nettest_flag_meta = 0 \<and>
   nettest_flags Settings_default AND nettest_flag_upload_ext = 0 \<and>
   nettest_flags Settings_default AND nettest_flag_download_ext = 0"
  by (simp add: Settings_default_def nettest_flag_defs)

text \<open>
  C10. A default-constructed \<open>Settings\<close> verifies the TLS peer and enables no protocol
  extension: \<open>protocol_flags\<close> is 0, so the JSON, TLS and WebSocket bits are all clear.
\<close>

theorem settings_default_protocol:
  "tls_verify_peer Settings_default \<and>
   protocol_flags Settings_default = 0 \<and>
   protocol_flags Settings_default AND protocol_flag_json = 0 \<and>
   protocol_flags Settings_default AND protocol_flag_tls = 0 \<and>
   protocol_flags Settings_default AND protocol_flag_websocket = 0"
  by (simp add: Settings_default_def)

section \<open>The legacy message codec\<close>

lemma u16_be_inverse: "u16_of_be (ucast (drop_bit 8 w)) (ucast w) = w"
  unfolding u16_of_be_def
  by (rule bit_eqI) (auto simp: bit_simps)

lemma unat_u16_length:
  assumes "length (msg :: byte list) \<le> 65535"
  shows "unat (of_nat (length msg) :: 16 word) = length msg"
  using assms by (simp add: unat_of_nat)

lemma msg_write_legacy_err_fits:
  assumes "length msg \<le> 65535"
  shows "msg_write_legacy_err code msg s = (none, s @ code # u16_be (of_nat (length msg)) @ msg)"
  using assms by (simp add: msg_write_legacy_err_def loopback_sendn_def)

lemma msg_read_legacy_err_frame:
  assumes "length msg \<le> 65535"
  shows "msg_read_legacy_err (code # u16_be (of_nat (length msg)) @ msg @ rest)
           = (Inr (code, msg), rest)"
  using assms
  by (simp add: msg_read_legacy_err_def loopback_recvn_def u16_be_def u16_be_inverse
      unat_u16_length)

text \<open>
  C2. For every type byte and every payload of at most 65535 bytes (so for the lengths
  0, 1 and 65535), writing the message with the legacy codec on an empty connection
  succeeds and reading it back gives the same type and payload and leaves the
  connection empty. For every payload of 65536 bytes or more the write fails with
  \<open>message_size\<close>, the \<open>bool\<close> result is false, and nothing is sent.
\<close>

theorem legacy_codec_roundtrip:
  "(length msg \<le> 65535 \<longrightarrow>
      (\<exists>s. msg_write_legacy_err code msg [] = (none, s) \<and>
           msg_write_legacy code msg [] = (True, s) \<and>
           msg_read_legacy_err s = (Inr (code, msg), []) \<and>
           msg_read_legacy s = (Some (code, msg), []))) \<and>
   (65536 \<le> length msg \<longrightarrow>
      msg_write_legacy_err code msg s0 = (message_size, s0) \<and>
      msg_write_legacy code msg s0 = (False, s0))"
proof (intro conjI impI)
  assume fits: "length msg \<le> 65535"
  let ?s = "code # u16_be (of_nat (length msg)) @ msg"
  have w: "msg_write_legacy_err code msg [] = (none, ?s)"
    using msg_write_legacy_err_fits [OF fits, of code "[]"] by simp
  have r: "msg_read_legacy_err ?s = (Inr (code, msg), [])"
    using msg_read_legacy_err_frame [OF fits, of code "[]"] by simp
  show "\<exists>s. msg_write_legacy_err code msg [] = (none, s) \<and>
           msg_write_legacy code msg [] = (True, s) \<and>
           msg_read_legacy_err s = (Inr (code, msg), []) \<and>
           msg_read_legacy s = (Some (code, msg), [])"
    using w r by (simp add: msg_write_legacy_def msg_read_legacy_def)
next
  assume "65536 \<le> length msg"
  then show "msg_write_legacy_err code msg s0 = (message_size, s0)"
    by (simp add: msg_write_legacy_err_def)
next
  assume "65536 \<le> length msg"
  then show "msg_write_legacy code msg s0 = (False, s0)"
    by (simp add: msg_write_legacy_def msg_write_legacy_err_def)
qed

theorem legacy_codec_roundtrip_witness:
  "length [0x41 :: byte] \<le> 65535 \<and>
   msg_read_legacy (snd (msg_write_legacy msg_test_msg [0x41] [])) =
     (Some (msg_test_msg, [0x41]), []) \<and>
   length (replicate 65535 (0 :: byte)) \<le> 65535 \<and>
   msg_read_legacy (snd (msg_write_legacy msg_login (replicate 65535 0) [])) =
     (Some (msg_login, replicate 65535 0), []) \<and>
   65536 \<le> length (replicate 65536 (0 :: byte)) \<and>
   msg_write_legacy_err msg_test_msg (replicate 65536 0) [] = (message_size, [])"
  using legacy_codec_roundtrip [of "[0x41]" msg_test_msg "[]"]
    legacy_codec_roundtrip [of "replicate 65535 0" msg_login "[]"]
    legacy_codec_roundtrip [of "replicate 65536 0" msg_test_msg "[]"]
  by auto

section \<open>Receiving and sending exactly N bytes\<close>

lemma netx_loop_done:
  assumes "\<not> off < count"
  shows "netx_loop fuel xfer await tmo w count off = Returned none off w"
  using assms by (simp add: netx_loop.simps [of fuel])

lemma netx_loop_exact:
  assumes "xfer_contract xfer" "off \<le> count"
    and "netx_loop fuel xfer await tmo w count off = Returned err moved w'"
  shows "(err = none) = (moved = count) \<and> off \<le> moved \<and> moved \<le> count"
  using assms(2,3)
proof (induction fuel arbitrary: w off)
  case 0
  then show ?case
    by (simp add: netx_loop.simps [of 0] split: if_splits)
next
  case (Suc fuel)
  show ?case
  proof (cases "off < count")
    case False
    with Suc.prems show ?thesis by (simp add: netx_loop.simps [of "Suc fuel"])
  next
    case True
    obtain e n w1 where x: "xfer w (count - off) = ((e, n), w1)"
      by (metis prod.exhaust)
    show ?thesis
    proof (cases "e = none")
      case True
      with x assms(1) have k: "n \<le> count - off"
        by (auto simp: xfer_contract_def)
      from Suc.prems(2) x True \<open>off < count\<close>
      have "netx_loop fuel xfer await tmo w1 count (off + n) = Returned err moved w'"
        by (simp add: netx_loop.simps [of "Suc fuel"])
      moreover have "off + n \<le> count"
        using k \<open>off < count\<close> by arith
      ultimately have "(err = none) = (moved = count) \<and> off + n \<le> moved \<and> moved \<le> count"
        by (rule Suc.IH [rotated])
      then show ?thesis by auto
    next
      case False
      note ne = this
      show ?thesis
      proof (cases "e = operation_would_block")
        case False
        with Suc.prems(2) x ne \<open>off < count\<close> show ?thesis
          by (auto simp: netx_loop.simps [of "Suc fuel"])
      next
        case True
        obtain e2 w2 where a: "await w1 tmo = (e2, w2)" by (metis prod.exhaust)
        show ?thesis
        proof (cases "e2 = none \<or> e2 = interrupted")
          case True
          with Suc.prems(2) x a \<open>e = operation_would_block\<close> \<open>off < count\<close>
          have "netx_loop fuel xfer await tmo w2 count off = Returned err moved w'"
            by (auto simp: netx_loop.simps [of "Suc fuel"])
          from Suc.IH [OF Suc.prems(1) this] show ?thesis .
        next
          case False
          with Suc.prems(2) x a \<open>e = operation_would_block\<close> \<open>off < count\<close> show ?thesis
            by (auto simp: netx_loop.simps [of "Suc fuel"])
        qed
      qed
    qed
  qed
qed

text \<open>More fuel resumes a call where it stood, and leaves a call that has returned.\<close>

lemma netx_loop_resume:
  assumes "netx_loop fuel xfer await tmo w count off = Running off1 w1"
  shows "netx_loop (fuel + k) xfer await tmo w count off
           = netx_loop k xfer await tmo w1 count off1"
  using assms
proof (induction fuel arbitrary: w off)
  case 0
  then show ?case
    by (cases "off < count") (simp_all add: netx_loop.simps [of 0 _ _ _ _ count off])
next
  case (Suc fuel)
  show ?case
  proof (cases "off < count")
    case False
    with Suc.prems show ?thesis by (simp add: netx_loop.simps [of _ _ _ _ _ count off])
  next
    case True
    obtain e n w2 where x: "xfer w (count - off) = ((e, n), w2)"
      by (metis prod.exhaust)
    obtain e2 w3 where a: "await w2 tmo = (e2, w3)" by (metis prod.exhaust)
    from Suc.prems True x a show ?thesis
      by (auto simp: netx_loop.simps [of "Suc _" _ _ _ w count off] dest: Suc.IH
          split: if_splits)
  qed
qed

lemma netx_loop_fuel_mono:
  assumes "netx_loop fuel xfer await tmo w count off = Returned err moved w'"
  shows "netx_loop (fuel + k) xfer await tmo w count off = Returned err moved w'"
  using assms
proof (induction fuel arbitrary: w off)
  case 0
  then have "\<not> off < count"
    by (simp add: netx_loop.simps [of 0] split: if_splits)
  with 0 show ?case by (simp add: netx_loop_done)
next
  case (Suc fuel)
  show ?case
  proof (cases "off < count")
    case False
    with Suc.prems show ?thesis by (simp add: netx_loop_done)
  next
    case True
    obtain e n w1 where x: "xfer w (count - off) = ((e, n), w1)"
      by (metis prod.exhaust)
    obtain e2 w2 where a: "await w1 tmo = (e2, w2)" by (metis prod.exhaust)
    from Suc.prems True x a show ?thesis
      by (auto simp: netx_loop.simps [of "Suc _" _ _ _ w count off] dest: Suc.IH
          split: if_splits)
  qed
qed

lemma netx_loop_running:
  assumes "netx_loop fuel xfer await tmo w count off = Running off1 w1"
  shows "off1 < count"
proof -
  have "netx_loop 0 xfer await tmo w1 count off1 = Running off1 w1"
    using netx_loop_resume [OF assms, of 0] assms by simp
  then show ?thesis
    by (simp add: netx_loop.simps [of 0] split: if_splits)
qed

lemma netx_loop_timed_out:
  assumes "netx_loop fuel xfer await tmo w count 0 = Running off w1"
    and "xfer w1 (count - off) = ((operation_would_block, n), w2)"
    and "await w2 tmo = (timed_out, w3)"
  shows "netx_loop (Suc fuel) xfer await tmo w count 0 = Returned timed_out off w3"
proof -
  have "off < count" by (rule netx_loop_running [OF assms(1)])
  with assms(2,3) have "netx_loop (Suc 0) xfer await tmo w1 count off = Returned timed_out off w3"
    by (simp add: netx_loop.simps [of "Suc 0"])
  with netx_loop_resume [OF assms(1), of "Suc 0"] show ?thesis by simp
qed

text \<open>
  The call does return when a transfer that succeeds moves at least one byte and at
  most what it was asked for, and a wait that lets the loop go on is followed by a
  transfer that does not block: two units of fuel for each byte are enough.
\<close>

lemma netx_loop_returns:
  assumes c: "xfer_contract xfer" and p: "xfer_progress xfer"
    and r: "ready_after_wait xfer await tmo"
  shows "\<exists>err moved w'.
           netx_loop (2 * (count - off)) xfer await tmo w count off = Returned err moved w'"
proof (induction "count - off" arbitrary: w off rule: less_induct)
  case less
  show ?case
  proof (cases "off < count")
    case False
    then show ?thesis by (simp add: netx_loop.simps [of _ _ _ _ _ count off])
  next
    case True
    define f where "f = 2 * (count - off - 1)"
    with True have f: "2 * (count - off) = Suc (Suc f)" by simp
    have step: "\<exists>err moved w'.
        netx_loop (Suc f') xfer await tmo w0 count off = Returned err moved w'"
      if x: "xfer w0 (count - off) = ((e, n), w1)" and e: "e \<noteq> operation_would_block"
        and f': "f \<le> f'" for w0 e n w1 f'
    proof (cases "e = none")
      case False
      with x e True show ?thesis by (simp add: netx_loop.simps [of "Suc f'"])
    next
      case True
      with x c p have n: "0 < n" "n \<le> count - off"
        unfolding xfer_contract_def xfer_progress_def by blast+
      then have "count - (off + n) < count - off" using \<open>off < count\<close> by arith
      from less [OF this] obtain err moved w' where
        "netx_loop (2 * (count - (off + n))) xfer await tmo w1 count (off + n)
           = Returned err moved w'"
        by blast
      from netx_loop_fuel_mono [OF this, of "f' - 2 * (count - (off + n))"]
      have "netx_loop f' xfer await tmo w1 count (off + n) = Returned err moved w'"
        using n f' by (simp add: f_def)
      with x True \<open>off < count\<close> show ?thesis by (simp add: netx_loop.simps [of "Suc f'"])
    qed
    obtain e n w1 where x: "xfer w (count - off) = ((e, n), w1)"
      by (metis prod.exhaust)
    show ?thesis
    proof (cases "e = operation_would_block")
      case False
      from step [OF x False, of "Suc f"] f show ?thesis by simp
    next
      case wb: True
      obtain e2 w2 where a: "await w1 tmo = (e2, w2)" by (metis prod.exhaust)
      show ?thesis
      proof (cases "e2 = none \<or> e2 = interrupted")
        case False
        with x wb a True f show ?thesis by (auto simp: netx_loop.simps [of "Suc (Suc f)"])
      next
        case ok: True
        obtain e3 n3 w3 where x3: "xfer w2 (count - off) = ((e3, n3), w3)"
          by (metis prod.exhaust)
        with r a ok have "e3 \<noteq> operation_would_block"
          unfolding ready_after_wait_def by (metis fst_conv snd_conv)
        from step [OF x3 this, of f] obtain err moved w' where
          "netx_loop (Suc f) xfer await tmo w2 count off = Returned err moved w'" by auto
        with x wb a ok True f show ?thesis by (auto simp: netx_loop.simps [of "Suc (Suc f)"])
      qed
    qed
  qed
qed

lemma mock_xfer_contract: "xfer_contract mock_xfer"
  by (auto simp: xfer_contract_def mock_xfer_def split: list.splits sock_event.splits if_splits)

text \<open>
  C1. Whenever \<open>netx_recvn\<close> or \<open>netx_sendn\<close> returns for a request of \<open>count\<close> bytes,
  the error is \<open>none\<close> exactly when \<open>count\<close> bytes were moved, and never more than
  \<open>count\<close> bytes are moved: success is never reported after moving fewer bytes. When the
  call is still in its loop with \<open>off\<close> bytes moved (none, or only a part of the
  \<open>count\<close>), the transfer would block and the wait for the socket times out, the call
  returns \<open>timed_out\<close> with \<open>off\<close> bytes moved. This holds for every world whose
  transfers move no more bytes than they are asked for.
\<close>

theorem netx_recvn_sendn_exact:
  assumes "xfer_contract (netx_recv_nonblocking io)"
    and "xfer_contract (netx_send_nonblocking io)"
  shows
    "(netx_recvn fuel io settings w count = Returned err moved w' \<longrightarrow>
        (err = none) = (moved = count) \<and> moved \<le> count) \<and>
     (netx_sendn fuel io settings w count = Returned err moved w' \<longrightarrow>
        (err = none) = (moved = count) \<and> moved \<le> count) \<and>
     (netx_recvn fuel io settings w count = Running off w1 \<and>
      netx_recv_nonblocking io w1 (count - off) = ((operation_would_block, n), w2) \<and>
      netx_wait_readable io w2 (timeout settings) = (timed_out, w3) \<longrightarrow>
        off < count \<and>
        netx_recvn (Suc fuel) io settings w count = Returned timed_out off w3) \<and>
     (netx_sendn fuel io settings w count = Running off w1 \<and>
      netx_send_nonblocking io w1 (count - off) = ((operation_would_block, n), w2) \<and>
      netx_wait_writeable io w2 (timeout settings) = (timed_out, w3) \<longrightarrow>
        off < count \<and>
        netx_sendn (Suc fuel) io settings w count = Returned timed_out off w3)"
proof (intro conjI impI)
  assume "netx_recvn fuel io settings w count = Returned err moved w'"
  then have "(err = none) = (moved = count) \<and> 0 \<le> moved \<and> moved \<le> count"
    unfolding netx_recvn_def by (intro netx_loop_exact [OF assms(1)]) simp_all
  then show "(err = none) = (moved = count)" and "moved \<le> count" by simp_all
next
  assume "netx_sendn fuel io settings w count = Returned err moved w'"
  then have "(err = none) = (moved = count) \<and> 0 \<le> moved \<and> moved \<le> count"
    unfolding netx_sendn_def by (intro netx_loop_exact [OF assms(2)]) simp_all
  then show "(err = none) = (moved = count)" and "moved \<le> count" by simp_all
next
  assume "netx_recvn fuel io settings w count = Running off w1 \<and>
      netx_recv_nonblocking io w1 (count - off) = ((operation_would_block, n), w2) \<and>
      netx_wait_readable io w2 (timeout settings) = (timed_out, w3)"
  then have run: "netx_loop fuel (netx_recv_nonblocking io) (netx_wait_readable io)
        (timeout settings) w count 0 = Running off w1"
    and "netx_recv_nonblocking io w1 (count - off) = ((operation_would_block, n), w2)"
    and "netx_wait_readable io w2 (timeout settings) = (timed_out, w3)"
    by (simp_all add: netx_recvn_def)
  then show "netx_recvn (Suc fuel) io settings w count = Returned timed_out off w3"
    unfolding netx_recvn_def by (rule netx_loop_timed_out)
  from run show "off < count" by (rule netx_loop_running)
next
  assume "netx_sendn fuel io settings w count = Running off w1 \<and>
      netx_send_nonblocking io w1 (count - off) = ((operation_would_block, n), w2) \<and>
      netx_wait_writeable io w2 (timeout settings) = (timed_out, w3)"
  then have run: "netx_loop fuel (netx_send_nonblocking io) (netx_wait_writeable io)
        (timeout settings) w count 0 = Running off w1"
    and "netx_send_nonblocking io w1 (count - off) = ((operation_would_block, n), w2)"
    and "netx_wait_writeable io w2 (timeout settings) = (timed_out, w3)"
    by (simp_all add: netx_sendn_def)
  then show "netx_sendn (Suc fuel) io settings w count = Returned timed_out off w3"
    unfolding netx_sendn_def by (rule netx_loop_timed_out)
  from run show "off < count" by (rule netx_loop_running)
qed

theorem netx_recvn_sendn_exact_witness:
  "xfer_contract (netx_recv_nonblocking mock_io) \<and>
   xfer_contract (netx_send_nonblocking mock_io) \<and>
   netx_recvn 3 mock_io Settings_default [Data 2, Stall none, Data 7] 5
     = Returned none 5 [Data 4] \<and>
   netx_sendn 1 mock_io Settings_default [Data 2, Stall timed_out, Data 7] 5
     = Running 2 [Stall timed_out, Data 7] \<and>
   netx_send_nonblocking mock_io [Stall timed_out, Data 7] (5 - 2)
     = ((operation_would_block, 0), [Stall timed_out, Data 7]) \<and>
   netx_wait_writeable mock_io [Stall timed_out, Data 7] (timeout Settings_default)
     = (timed_out, [Data 7]) \<and>
   netx_sendn (Suc 1) mock_io Settings_default [Data 2, Stall timed_out, Data 7] 5
     = Returned timed_out 2 [Data 7]"
proof -
  have c: "xfer_contract (netx_recv_nonblocking mock_io)"
    "xfer_contract (netx_send_nonblocking mock_io)"
    by (simp_all add: mock_io_def mock_xfer_contract)
  have r: "netx_recvn 3 mock_io Settings_default [Data 2, Stall none, Data 7] 5
     = Returned none 5 [Data 4]"
    by code_simp
  have s: "netx_sendn 1 mock_io Settings_default [Data 2, Stall timed_out, Data 7] 5
     = Running 2 [Stall timed_out, Data 7]"
    by code_simp
  have x: "netx_send_nonblocking mock_io [Stall timed_out, Data 7] (5 - 2)
     = ((operation_would_block, 0), [Stall timed_out, Data 7])"
    by (simp add: mock_io_def mock_xfer_def)
  have a: "netx_wait_writeable mock_io [Stall timed_out, Data 7] (timeout Settings_default)
     = (timed_out, [Data 7])"
    by (simp add: mock_io_def mock_wait_def)
  from netx_recvn_sendn_exact [OF c, where fuel = 1 and settings = Settings_default
      and w = "[Data 2, Stall timed_out, Data 7]" and count = 5 and off = 2 and n = 0
      and ?w1.0 = "[Stall timed_out, Data 7]" and ?w2.0 = "[Stall timed_out, Data 7]"
      and ?w3.0 = "[Data 7]"] s x a
  have "netx_sendn (Suc 1) mock_io Settings_default [Data 2, Stall timed_out, Data 7] 5
     = Returned timed_out 2 [Data 7]"
    by simp
  with c r s x a show ?thesis by simp
qed

section \<open>WebSocket control frames\<close>

lemmas ws_opcode_defs = ws_opcode_close_def ws_opcode_ping_def ws_opcode_pong_def

lemma ws_recv_frame_pong:
  assumes "incoming conn = c # fs" "ws_receivable total_len c" "opcode c = ws_opcode_pong"
  shows "ws_recv_frame conn total_len = ws_recv_frame (conn\<lparr>incoming := fs\<rparr>) total_len"
  using assms
  by (subst ws_recv_frame.simps [of conn total_len])
     (simp add: ws_recv_any_frame_def ws_receivable_def ws_opcode_defs)

lemma ws_recv_frame_ping:
  assumes "incoming conn = c # fs" "ws_receivable total_len c" "opcode c = ws_opcode_ping"
  shows "ws_recv_frame conn total_len =
         ws_recv_frame (conn\<lparr>incoming := fs,
                          sent := sent conn @ [(ws_opcode_pong OR ws_fin_flag, payload c)]\<rparr>) total_len"
  using assms
  by (subst ws_recv_frame.simps [of conn total_len])
     (simp add: ws_recv_any_frame_def ws_send_frame_def ws_receivable_def ws_opcode_defs)

lemma ws_recv_frame_close:
  assumes "incoming conn = c # fs" "ws_receivable total_len c" "opcode c = ws_opcode_close"
  shows "ws_recv_frame conn total_len =
         (Inl eof, conn\<lparr>incoming := fs,
                         sent := sent conn @ [(ws_opcode_close OR ws_fin_flag, [])]\<rparr>)"
  using assms
  by (subst ws_recv_frame.simps [of conn total_len])
     (simp add: ws_recv_any_frame_def ws_send_frame_def ws_receivable_def ws_opcode_defs)

lemma ws_recv_frame_data:
  assumes "incoming conn = c # fs" "ws_receivable total_len c"
    "opcode c \<noteq> ws_opcode_close" "opcode c \<noteq> ws_opcode_ping" "opcode c \<noteq> ws_opcode_pong"
  shows "ws_recv_frame conn total_len = (Inr c, conn\<lparr>incoming := fs\<rparr>)"
  using assms
  by (subst ws_recv_frame.simps [of conn total_len])
     (simp add: ws_recv_any_frame_def ws_receivable_def)

lemma ws_recv_frame_end:
  assumes "incoming conn = []"
  shows "ws_recv_frame conn total_len = (Inl eof, conn)"
  using assms
  by (subst ws_recv_frame.simps [of conn total_len]) (simp add: ws_recv_any_frame_def)

lemma ws_recv_frame_skips_control:
  assumes "incoming conn = ctl @ fs"
    and "\<forall>c \<in> set ctl. ws_receivable total_len c \<and>
           (opcode c = ws_opcode_ping \<or> opcode c = ws_opcode_pong)"
  shows "ws_recv_frame conn total_len =
         ws_recv_frame
           (conn\<lparr>incoming := fs,
                  sent := sent conn @
                    map (\<lambda>c. (ws_opcode_pong OR ws_fin_flag, payload c))
                      (filter (\<lambda>c. opcode c = ws_opcode_ping) ctl)\<rparr>) total_len"
  using assms
proof (induction ctl arbitrary: conn)
  case Nil
  then have "conn\<lparr>incoming := fs, sent := sent conn\<rparr> = conn" by simp
  then show ?case by simp
next
  case (Cons c cs)
  have inc: "incoming conn = c # (cs @ fs)" using Cons.prems(1) by simp
  have rc: "ws_receivable total_len c" using Cons.prems(2) by simp
  have rest: "\<forall>c \<in> set cs. ws_receivable total_len c \<and>
           (opcode c = ws_opcode_ping \<or> opcode c = ws_opcode_pong)"
    using Cons.prems(2) by simp
  show ?case
  proof (cases "opcode c = ws_opcode_ping")
    case True
    let ?c1 = "conn\<lparr>incoming := cs @ fs,
                     sent := sent conn @ [(ws_opcode_pong OR ws_fin_flag, payload c)]\<rparr>"
    have "ws_recv_frame conn total_len = ws_recv_frame ?c1 total_len"
      by (rule ws_recv_frame_ping [OF inc rc True])
    also have "\<dots> = ws_recv_frame
           (?c1\<lparr>incoming := fs,
                  sent := sent ?c1 @
                    map (\<lambda>c. (ws_opcode_pong OR ws_fin_flag, payload c))
                      (filter (\<lambda>c. opcode c = ws_opcode_ping) cs)\<rparr>) total_len"
      by (rule Cons.IH) (use rest in simp_all)
    finally show ?thesis using True by simp
  next
    case False
    then have pong: "opcode c = ws_opcode_pong" using Cons.prems(2) by simp
    let ?c1 = "conn\<lparr>incoming := cs @ fs\<rparr>"
    have "ws_recv_frame conn total_len = ws_recv_frame ?c1 total_len"
      by (rule ws_recv_frame_pong [OF inc rc pong])
    also have "\<dots> = ws_recv_frame
           (?c1\<lparr>incoming := fs,
                  sent := sent ?c1 @
                    map (\<lambda>c. (ws_opcode_pong OR ws_fin_flag, payload c))
                      (filter (\<lambda>c. opcode c = ws_opcode_ping) cs)\<rparr>) total_len"
      by (rule Cons.IH) (use rest in simp_all)
    finally show ?thesis using False by simp
  qed
qed


text \<open>
  C3. Let the frames that have arrived begin with any run \<open>ctl\<close> of PING and PONG
  frames. One call of \<open>ws_recv_frame\<close> consumes \<open>ctl\<close> and, in the order of arrival,
  emits for every PING of \<open>ctl\<close> a PONG with the same payload; a PONG of \<open>ctl\<close> is
  dropped, payload and all. If the next frame is a CLOSE, the call then emits a CLOSE and
  returns \<open>eof\<close>. If the next frame is a frame of any other kind, the call returns that
  frame, all the PONGs having been emitted before. If no frame follows, the call ends
  with the \<open>eof\<close> of the connection.
\<close>

theorem ws_recv_frame_control_frames:
  assumes "incoming conn = ctl @ fs"
    and "\<forall>c \<in> set ctl. ws_receivable total_len c \<and>
           (opcode c = ws_opcode_ping \<or> opcode c = ws_opcode_pong)"
  shows
    "(\<forall>f rest. fs = f # rest \<and> ws_receivable total_len f \<and> opcode f = ws_opcode_close \<longrightarrow>
        ws_recv_frame conn total_len =
          (Inl eof,
           conn\<lparr>incoming := rest,
                sent := sent conn @ ws_pongs_for ctl @ [(ws_opcode_close OR ws_fin_flag, [])]\<rparr>)) \<and>
     (\<forall>f rest. fs = f # rest \<and> ws_receivable total_len f \<and> opcode f \<noteq> ws_opcode_close \<and>
        opcode f \<noteq> ws_opcode_ping \<and> opcode f \<noteq> ws_opcode_pong \<longrightarrow>
        ws_recv_frame conn total_len =
          (Inr f, conn\<lparr>incoming := rest, sent := sent conn @ ws_pongs_for ctl\<rparr>)) \<and>
     (fs = [] \<longrightarrow>
        ws_recv_frame conn total_len =
          (Inl eof, conn\<lparr>incoming := [], sent := sent conn @ ws_pongs_for ctl\<rparr>))"
proof -
  let ?c1 = "conn\<lparr>incoming := fs, sent := sent conn @ ws_pongs_for ctl\<rparr>"
  have skip: "ws_recv_frame conn total_len = ws_recv_frame ?c1 total_len"
    unfolding ws_pongs_for_def by (rule ws_recv_frame_skips_control [OF assms])
  have inc: "incoming ?c1 = fs" by simp
  show ?thesis
  proof (intro conjI allI impI)
    fix f rest
    assume "fs = f # rest \<and> ws_receivable total_len f \<and> opcode f = ws_opcode_close"
    then have "incoming ?c1 = f # rest" "ws_receivable total_len f" "opcode f = ws_opcode_close"
      by simp_all
    from ws_recv_frame_close [OF this] skip
    show "ws_recv_frame conn total_len =
          (Inl eof,
           conn\<lparr>incoming := rest,
                sent := sent conn @ ws_pongs_for ctl @ [(ws_opcode_close OR ws_fin_flag, [])]\<rparr>)"
      by simp
  next
    fix f rest
    assume "fs = f # rest \<and> ws_receivable total_len f \<and> opcode f \<noteq> ws_opcode_close \<and>
        opcode f \<noteq> ws_opcode_ping \<and> opcode f \<noteq> ws_opcode_pong"
    then have "incoming ?c1 = f # rest" "ws_receivable total_len f"
      "opcode f \<noteq> ws_opcode_close" "opcode f \<noteq> ws_opcode_ping" "opcode f \<noteq> ws_opcode_pong"
      by simp_all
    from ws_recv_frame_data [OF this] skip
    show "ws_recv_frame conn total_len =
          (Inr f, conn\<lparr>incoming := rest, sent := sent conn @ ws_pongs_for ctl\<rparr>)"
      by simp
  next
    assume "fs = []"
    then have "incoming ?c1 = []" by simp
    from ws_recv_frame_end [OF this] skip \<open>fs = []\<close>
    show "ws_recv_frame conn total_len =
          (Inl eof, conn\<lparr>incoming := [], sent := sent conn @ ws_pongs_for ctl\<rparr>)"
      by simp
  qed
qed

theorem ws_recv_frame_control_frames_witness:
  "ws_recv_frame
     \<lparr>incoming = [ws_server_frame 0x89 [1, 2], ws_server_frame 0x8A [7],
                  ws_server_frame 0x89 [3], ws_server_frame 0x81 [5, 5],
                  ws_server_frame 0x89 [9]],
      sent = []\<rparr> 10
   = (Inr (ws_server_frame 0x81 [5, 5]),
      \<lparr>incoming = [ws_server_frame 0x89 [9]],
       sent = [(0x8A, [1, 2]), (0x8A, [3])]\<rparr>) \<and>
   ws_recv_frame
     \<lparr>incoming = [ws_server_frame 0x89 [4], ws_server_frame 0x88 [],
                  ws_server_frame 0x81 [6]],
      sent = []\<rparr> 10
   = (Inl eof, \<lparr>incoming = [ws_server_frame 0x81 [6]], sent = [(0x8A, [4]), (0x88, [])]\<rparr>)"
proof -
  have ops: "opcode (ws_server_frame 0x89 p) = ws_opcode_ping"
    "opcode (ws_server_frame 0x8A p) = ws_opcode_pong"
    "opcode (ws_server_frame 0x88 p) = ws_opcode_close"
    "opcode (ws_server_frame 0x81 p) = ws_opcode_text" for p
    by (simp_all add: ws_server_frame_def ws_opcode_mask_def ws_opcode_defs ws_opcode_text_def)
  have rcv: "ws_receivable 10 (ws_server_frame b p) = (b AND 0x70 = 0 \<and> length p \<le> 10)" for b p
    by (simp add: ws_receivable_def ws_server_frame_def ws_reserved_mask_def)
  have pongs: "ws_pongs_for [ws_server_frame 0x89 [1, 2], ws_server_frame 0x8A [7],
      ws_server_frame 0x89 [3]] = [(0x8A, [1, 2]), (0x8A, [3])]"
    "ws_pongs_for [ws_server_frame 0x89 [4]] = [(0x8A, [4])]"
    by (simp_all add: ws_pongs_for_def ops ws_opcode_defs ws_fin_flag_def)
      (simp_all add: ws_server_frame_def)
  have "ws_recv_frame
     \<lparr>incoming = [ws_server_frame 0x89 [1, 2], ws_server_frame 0x8A [7],
                  ws_server_frame 0x89 [3], ws_server_frame 0x81 [5, 5],
                  ws_server_frame 0x89 [9]],
      sent = []\<rparr> 10
   = (Inr (ws_server_frame 0x81 [5, 5]),
      \<lparr>incoming = [ws_server_frame 0x89 [9]],
       sent = [(0x8A, [1, 2]), (0x8A, [3])]\<rparr>)"
    using ws_recv_frame_control_frames [where
      conn = "\<lparr>incoming = [ws_server_frame 0x89 [1, 2], ws_server_frame 0x8A [7],
                  ws_server_frame 0x89 [3], ws_server_frame 0x81 [5, 5],
                  ws_server_frame 0x89 [9]], sent = []\<rparr>"
      and ctl = "[ws_server_frame 0x89 [1, 2], ws_server_frame 0x8A [7],
                  ws_server_frame 0x89 [3]]"
      and fs = "[ws_server_frame 0x81 [5, 5], ws_server_frame 0x89 [9]]"
      and total_len = 10]
    by (simp add: ops rcv pongs ws_opcode_defs ws_opcode_text_def)
  moreover have "ws_recv_frame
     \<lparr>incoming = [ws_server_frame 0x89 [4], ws_server_frame 0x88 [],
                  ws_server_frame 0x81 [6]],
      sent = []\<rparr> 10
   = (Inl eof, \<lparr>incoming = [ws_server_frame 0x81 [6]], sent = [(0x8A, [4]), (0x88, [])]\<rparr>)"
    using ws_recv_frame_control_frames [where
      conn = "\<lparr>incoming = [ws_server_frame 0x89 [4], ws_server_frame 0x88 [],
                  ws_server_frame 0x81 [6]], sent = []\<rparr>"
      and ctl = "[ws_server_frame 0x89 [4]]"
      and fs = "[ws_server_frame 0x88 [], ws_server_frame 0x81 [6]]"
      and total_len = 10]
    by (simp add: ops rcv pongs ws_opcode_defs ws_fin_flag_def)
  ultimately show ?thesis by simp
qed

section \<open>Expecting TEST_PREPARE\<close>

text \<open>
  C4. \<open>msg_expect_test_prepare\<close> reads the payload as fields separated by whitespace.
  When it succeeds the message is a TEST_PREPARE, the port it gives back is the first
  field, and that field is a decimal number from 1 to 65535. When the port is the only
  field, so that the number of flows is absent, the number of flows is 1, and a payload
  that is just a valid port does succeed. With a maximum from 1 to 255 for the number of
  flows, the number given back is at most that maximum.
\<close>

theorem msg_expect_test_prepare_port_nflows:
  "(msg_expect_test_prepare max_nflows (Some (code, message)) = Some (pport, nflows) \<longrightarrow>
      code = msg_test_prepare \<and>
      split_fields message \<noteq> [] \<and> pport = hd (split_fields message) \<and>
      pport \<noteq> [] \<and> list_all is_digit_char pport \<and>
      1 \<le> dec_value pport \<and> dec_value pport \<le> 65535 \<and>
      (length (split_fields message) = 1 \<longrightarrow> nflows = 1) \<and>
      (1 \<le> max_nflows \<and> max_nflows \<le> 255 \<longrightarrow> unat nflows \<le> max_nflows)) \<and>
   (split_fields message = [pport] \<and> sys_strtonum pport 1 65535 = Inr p \<longrightarrow>
      msg_expect_test_prepare max_nflows (Some (msg_test_prepare, message)) = Some (pport, 1))"
  by (auto simp: msg_expect_test_prepare_def msg_expect_def sys_strtonum_def unat_of_nat
      split: list.splits sum.splits if_splits option.splits)

theorem msg_expect_test_prepare_port_nflows_witness:
  "msg_expect_test_prepare 16 (Some (msg_test_prepare, ''3010 3'')) = Some (''3010'', 3) \<and>
   msg_expect_test_prepare 16 (Some (msg_test_prepare, ''3010 40'')) = Some (''3010'', 16) \<and>
   split_fields ''3010'' = [''3010''] \<and> sys_strtonum ''3010'' 1 65535 = Inr 3010 \<and>
   msg_expect_test_prepare 16 (Some (msg_test_prepare, ''3010'')) = Some (''3010'', 1) \<and>
   dec_value ''3010'' = 3010 \<and> unat (16 :: 8 word) \<le> 16"
proof -
  have a: "msg_expect_test_prepare 16 (Some (msg_test_prepare, ''3010 3'')) = Some (''3010'', 3)"
    and b: "msg_expect_test_prepare 16 (Some (msg_test_prepare, ''3010 40'')) = Some (''3010'', 16)"
    and c: "split_fields ''3010'' = [''3010'']"
    and d: "sys_strtonum ''3010'' 1 65535 = Inr 3010"
    and e: "dec_value ''3010'' = 3010"
    by code_simp+
  from msg_expect_test_prepare_port_nflows [of 16 msg_test_prepare "''3010 40''" "''3010''" 16 3010] b
  have "unat (16 :: 8 word) \<le> 16" by simp
  moreover
  from msg_expect_test_prepare_port_nflows [of 16 msg_test_prepare "''3010''" "''3010''" 1 3010] c d
  have "msg_expect_test_prepare 16 (Some (msg_test_prepare, ''3010'')) = Some (''3010'', 1)"
    by simp
  ultimately show ?thesis using a b c d e by simp
qed

section \<open>The WebSocket handshake\<close>

lemmas ws_f_defs = ws_f_connection_def ws_f_sec_ws_accept_def ws_f_sec_ws_protocol_def
  ws_f_upgrade_def

lemma ws_check_line_flag:
  assumes "ws_check_line sha1 base64 key proto line = Some (g, ok)"
  shows "g \<in> set ws_f_all"
  using assms by (auto simp: ws_check_line_def ws_f_all_def split: if_splits)

lemma ws_f_disjoint:
  assumes "f \<in> set ws_f_all" "g \<in> set ws_f_all" "g \<noteq> f"
  shows "g AND f = 0"
  using assms by (auto simp: ws_f_all_def ws_f_defs)

lemma not_all_seen:
  fixes seen :: "64 word"
  assumes "seen AND f = 0" "ws_flags AND f \<noteq> 0"
  shows "seen AND ws_flags \<noteq> ws_flags"
proof
  assume "seen AND ws_flags = ws_flags"
  then have "ws_flags AND f = (seen AND ws_flags) AND f" by simp
  also have "\<dots> = ws_flags AND (seen AND f)" by (simp add: ac_simps)
  finally show False using assms by simp
qed

lemma ws_handshake_headers_missing:
  assumes "[] \<notin> set block"
    and "f \<in> set ws_f_all" and "ws_flags AND f \<noteq> 0" and "seen AND f = 0"
    and "\<forall>line \<in> set block. ws_check_line sha1 base64 key proto line \<noteq> Some (f, True)"
  shows "ws_handshake_headers (ws_check_line sha1 base64 key proto) ws_flags seen
           (block @ [] # rest) = ws_proto"
  using assms(1,4,5)
proof (induction block arbitrary: seen)
  case Nil
  then show ?case using not_all_seen [OF Nil(2) assms(3)] by simp
next
  case (Cons line block)
  have ne: "line \<noteq> []" and blk: "[] \<notin> set block" using Cons.prems(1) by auto
  have rest: "\<forall>line \<in> set block. ws_check_line sha1 base64 key proto line \<noteq> Some (f, True)"
    using Cons.prems(3) by simp
  show ?case
  proof (cases "ws_check_line sha1 base64 key proto line")
    case None
    with ne Cons.IH [OF blk Cons.prems(2) rest] show ?thesis by simp
  next
    case (Some p)
    obtain g ok where p: "p = (g, ok)" by (cases p)
    show ?thesis
    proof (cases "ws_flags AND g = 0 \<or> \<not> ok")
      case True
      with ne Some p Cons.IH [OF blk Cons.prems(2) rest] show ?thesis by auto
    next
      case False
      then have ok: ok and req: "ws_flags AND g \<noteq> 0" by simp_all
      have "g \<noteq> f" using Cons.prems(3) Some p ok by auto
      moreover have "g \<in> set ws_f_all" using Some p by (auto intro: ws_check_line_flag)
      ultimately have "g AND f = 0" using assms(2) by (intro ws_f_disjoint)
      then have "(seen OR g) AND f = 0"
        using Cons.prems(2) by (simp add: bit.conj_disj_distrib2)
      from Cons.IH [OF blk this rest] ne Some p ok req show ?thesis by simp
    qed
  qed
qed

lemma ws_handshake_headers_invalid:
  assumes "[] \<notin> set block" and "ws_flags AND f \<noteq> 0"
    and "\<exists>line \<in> set block. check line = Some (f, False)"
  shows "ws_handshake_headers check ws_flags seen (block @ [] # rest) = ws_proto"
  using assms(1,3)
proof (induction block arbitrary: seen)
  case Nil
  then show ?case by simp
next
  case (Cons line block)
  have ne: "line \<noteq> []" and blk: "[] \<notin> set block" using Cons.prems(1) by auto
  show ?case
  proof (cases "check line = Some (f, False)")
    case True
    with ne assms(2) show ?thesis by simp
  next
    case False
    with Cons.prems(2) have "\<exists>line \<in> set block. check line = Some (f, False)" by simp
    from Cons.IH [OF blk this] ne show ?thesis
      by (auto split: option.splits)
  qed
qed


lemma ws_handshake_rejects_flag:
  assumes "response = block @ [] # rest" and "[] \<notin> set block"
    and "f \<in> set ws_f_all" and "ws_flags AND f \<noteq> 0"
    and "(\<forall>line \<in> set block. \<forall>valid.
            ws_check_line sha1 base64 key ws_protocol line \<noteq> Some (f, valid)) \<or>
         (\<exists>line \<in> set block.
            ws_check_line sha1 base64 key ws_protocol line = Some (f, False))"
  shows "ws_handshake sha1 base64 key response ws_flags ws_protocol = ws_proto"
proof (cases "\<exists>line \<in> set block.
            ws_check_line sha1 base64 key ws_protocol line = Some (f, False)")
  case True
  from ws_handshake_headers_invalid [OF assms(2,4) True] assms(1) show ?thesis
    by (simp add: ws_handshake_def)
next
  case False
  with assms(5) have
    "\<forall>line \<in> set block. ws_check_line sha1 base64 key ws_protocol line \<noteq> Some (f, True)"
    by blast
  from ws_handshake_headers_missing [OF assms(2,3,4) _ this, of 0] assms(1) show ?thesis
    by (simp add: ws_handshake_def)
qed

text \<open>What \<open>str_contains\<close> computes: the pattern occurs somewhere in the string.\<close>

lemma str_contains_iff: "str_contains pat s = (\<exists>xs ys. s = xs @ pat @ ys)"
proof (induction s)
  case Nil
  then show ?case by auto
next
  case (Cons c cs)
  show ?case
  proof
    assume "str_contains pat (c # cs)"
    then consider "take (length pat) (c # cs) = pat" | "str_contains pat cs" by auto
    then show "\<exists>xs ys. c # cs = xs @ pat @ ys"
    proof cases
      case 1
      then have "c # cs = [] @ pat @ drop (length pat) (c # cs)"
        by (metis append_Nil append_take_drop_id)
      then show ?thesis by blast
    next
      case 2
      with Cons.IH obtain xs ys where "cs = xs @ pat @ ys" by blast
      then have "c # cs = (c # xs) @ pat @ ys" by simp
      then show ?thesis by blast
    qed
  next
    assume "\<exists>xs ys. c # cs = xs @ pat @ ys"
    then obtain xs ys where eq: "c # cs = xs @ pat @ ys" by blast
    show "str_contains pat (c # cs)"
    proof (cases xs)
      case Nil
      with eq have "take (length pat) (c # cs) = pat" by simp
      then show ?thesis by simp
    next
      case (Cons x xs')
      with eq have "cs = xs' @ pat @ ys" by simp
      with Cons.IH have "str_contains pat cs" by blast
      then show ?thesis by simp
    qed
  qed
qed

text \<open>Which lines \<open>ws_check_line\<close> takes for each header, and which values it accepts.\<close>

lemma ws_check_line_upgrade:
  "(ws_check_line sha1 base64 key ws_protocol line = Some (ws_f_upgrade, valid)) =
   (ws_header_name line = ''upgrade'' \<and>
    valid = (map ascii_tolower (ws_header_value line) = ''websocket''))"
  by (auto simp: ws_check_line_def ws_f_defs)

lemma ws_check_line_connection:
  "(ws_check_line sha1 base64 key ws_protocol line = Some (ws_f_connection, valid)) =
   (ws_header_name line = ''connection'' \<and>
    valid = (\<exists>xs ys. ws_header_value line = xs @ ''Upgrade'' @ ys))"
  by (auto simp: ws_check_line_def ws_f_defs str_contains_iff)

lemma ws_check_line_accept:
  "(ws_check_line sha1 base64 key ws_protocol line = Some (ws_f_sec_ws_accept, valid)) =
   (ws_header_name line = ''sec-websocket-accept'' \<and>
    valid = (ws_header_value line =
      base64 (sha1 (key @ ''258EAFA5-E914-47DA-95CA-C5AB0DC85B11''))))"
  by (auto simp: ws_check_line_def ws_f_defs ws_guid_def)

lemma ws_check_line_protocol:
  "(ws_check_line sha1 base64 key ws_protocol line = Some (ws_f_sec_ws_protocol, valid)) =
   (ws_header_name line = ''sec-websocket-protocol'' \<and>
    valid = (ws_header_value line = ws_protocol))"
  by (auto simp: ws_check_line_def ws_f_defs)

text \<open>
  C5. Let the response of the server be a block of lines, none of them blank, then the
  blank line. \<open>ws_handshake\<close> returns \<open>ws_proto\<close> in each of these cases, where a header
  is a line whose name, the text before the colon read without regard to case, is the
  header's, and its value is the text after the colon and the spaces that follow it:
  \<^item> \<open>ws_flags\<close> requires Upgrade, and the block has no Upgrade header or has one whose
    value is not "websocket" when case is disregarded;
  \<^item> \<open>ws_flags\<close> requires Connection, and the block has no Connection header or has one
    whose value does not contain "Upgrade";
  \<^item> \<open>ws_flags\<close> requires Sec-WebSocket-Accept, and the block has no such header or has
    one whose value is not base64(SHA1(key + "258EAFA5-E914-47DA-95CA-C5AB0DC85B11"));
  \<^item> \<open>ws_flags\<close> requires Sec-WebSocket-Protocol, and the block has no such header or
    has one whose value is not the protocol that was offered.
\<close>

theorem ws_handshake_rejects:
  assumes "response = block @ [] # rest" and "[] \<notin> set block"
  shows
    "(ws_flags AND ws_f_upgrade \<noteq> 0 \<and>
      ((\<forall>line \<in> set block. ws_header_name line \<noteq> ''upgrade'') \<or>
       (\<exists>line \<in> set block. ws_header_name line = ''upgrade'' \<and>
          map ascii_tolower (ws_header_value line) \<noteq> ''websocket'')) \<longrightarrow>
        ws_handshake sha1 base64 key response ws_flags ws_protocol = ws_proto) \<and>
     (ws_flags AND ws_f_connection \<noteq> 0 \<and>
      ((\<forall>line \<in> set block. ws_header_name line \<noteq> ''connection'') \<or>
       (\<exists>line \<in> set block. ws_header_name line = ''connection'' \<and>
          \<not> (\<exists>xs ys. ws_header_value line = xs @ ''Upgrade'' @ ys))) \<longrightarrow>
        ws_handshake sha1 base64 key response ws_flags ws_protocol = ws_proto) \<and>
     (ws_flags AND ws_f_sec_ws_accept \<noteq> 0 \<and>
      ((\<forall>line \<in> set block. ws_header_name line \<noteq> ''sec-websocket-accept'') \<or>
       (\<exists>line \<in> set block. ws_header_name line = ''sec-websocket-accept'' \<and>
          ws_header_value line \<noteq>
            base64 (sha1 (key @ ''258EAFA5-E914-47DA-95CA-C5AB0DC85B11'')))) \<longrightarrow>
        ws_handshake sha1 base64 key response ws_flags ws_protocol = ws_proto) \<and>
     (ws_flags AND ws_f_sec_ws_protocol \<noteq> 0 \<and>
      ((\<forall>line \<in> set block. ws_header_name line \<noteq> ''sec-websocket-protocol'') \<or>
       (\<exists>line \<in> set block. ws_header_name line = ''sec-websocket-protocol'' \<and>
          ws_header_value line \<noteq> ws_protocol)) \<longrightarrow>
        ws_handshake sha1 base64 key response ws_flags ws_protocol = ws_proto)"
proof (intro conjI impI)
  assume h: "ws_flags AND ws_f_upgrade \<noteq> 0 \<and>
      ((\<forall>line \<in> set block. ws_header_name line \<noteq> ''upgrade'') \<or>
       (\<exists>line \<in> set block. ws_header_name line = ''upgrade'' \<and>
          map ascii_tolower (ws_header_value line) \<noteq> ''websocket''))"
  then have "(\<forall>line \<in> set block. \<forall>valid.
            ws_check_line sha1 base64 key ws_protocol line \<noteq> Some (ws_f_upgrade, valid)) \<or>
         (\<exists>line \<in> set block.
            ws_check_line sha1 base64 key ws_protocol line = Some (ws_f_upgrade, False))"
    unfolding ws_check_line_upgrade by blast
  with h show "ws_handshake sha1 base64 key response ws_flags ws_protocol = ws_proto"
    by (intro ws_handshake_rejects_flag [OF assms, of ws_f_upgrade]) (simp_all add: ws_f_all_def)
next
  assume h: "ws_flags AND ws_f_connection \<noteq> 0 \<and>
      ((\<forall>line \<in> set block. ws_header_name line \<noteq> ''connection'') \<or>
       (\<exists>line \<in> set block. ws_header_name line = ''connection'' \<and>
          \<not> (\<exists>xs ys. ws_header_value line = xs @ ''Upgrade'' @ ys)))"
  then have "(\<forall>line \<in> set block. \<forall>valid.
            ws_check_line sha1 base64 key ws_protocol line \<noteq> Some (ws_f_connection, valid)) \<or>
         (\<exists>line \<in> set block.
            ws_check_line sha1 base64 key ws_protocol line = Some (ws_f_connection, False))"
    unfolding ws_check_line_connection by blast
  with h show "ws_handshake sha1 base64 key response ws_flags ws_protocol = ws_proto"
    by (intro ws_handshake_rejects_flag [OF assms, of ws_f_connection])
      (simp_all add: ws_f_all_def)
next
  assume h: "ws_flags AND ws_f_sec_ws_accept \<noteq> 0 \<and>
      ((\<forall>line \<in> set block. ws_header_name line \<noteq> ''sec-websocket-accept'') \<or>
       (\<exists>line \<in> set block. ws_header_name line = ''sec-websocket-accept'' \<and>
          ws_header_value line \<noteq>
            base64 (sha1 (key @ ''258EAFA5-E914-47DA-95CA-C5AB0DC85B11''))))"
  then have "(\<forall>line \<in> set block. \<forall>valid.
            ws_check_line sha1 base64 key ws_protocol line \<noteq> Some (ws_f_sec_ws_accept, valid)) \<or>
         (\<exists>line \<in> set block.
            ws_check_line sha1 base64 key ws_protocol line = Some (ws_f_sec_ws_accept, False))"
    unfolding ws_check_line_accept by blast
  with h show "ws_handshake sha1 base64 key response ws_flags ws_protocol = ws_proto"
    by (intro ws_handshake_rejects_flag [OF assms, of ws_f_sec_ws_accept])
      (simp_all add: ws_f_all_def)
next
  assume h: "ws_flags AND ws_f_sec_ws_protocol \<noteq> 0 \<and>
      ((\<forall>line \<in> set block. ws_header_name line \<noteq> ''sec-websocket-protocol'') \<or>
       (\<exists>line \<in> set block. ws_header_name line = ''sec-websocket-protocol'' \<and>
          ws_header_value line \<noteq> ws_protocol))"
  then have "(\<forall>line \<in> set block. \<forall>valid.
            ws_check_line sha1 base64 key ws_protocol line \<noteq> Some (ws_f_sec_ws_protocol, valid)) \<or>
         (\<exists>line \<in> set block.
            ws_check_line sha1 base64 key ws_protocol line = Some (ws_f_sec_ws_protocol, False))"
    unfolding ws_check_line_protocol by blast
  with h show "ws_handshake sha1 base64 key response ws_flags ws_protocol = ws_proto"
    by (intro ws_handshake_rejects_flag [OF assms, of ws_f_sec_ws_protocol])
      (simp_all add: ws_f_all_def)
qed

lemma ws_handshake_accepts_example:
  "ws_handshake (\<lambda>s. s) (\<lambda>s. s) ''k''
     [''HTTP/1.1 101 Switching Protocols'', ''Upgrade: WebSocket'',
      ''Connection: keep-alive, Upgrade'',
      ''Sec-WebSocket-Accept: k258EAFA5-E914-47DA-95CA-C5AB0DC85B11'',
      ''Sec-WebSocket-Protocol: ndt'', []]
     (ws_f_connection OR ws_f_upgrade OR ws_f_sec_ws_accept OR ws_f_sec_ws_protocol) ''ndt''
   = none"
  by code_simp

theorem ws_handshake_rejects_witness:
  "ws_handshake (\<lambda>s. s) (\<lambda>s. s) ''k''
     [''HTTP/1.1 101 Switching Protocols'', ''Upgrade: h2c'', ''Connection: Upgrade'', []]
     (ws_f_connection OR ws_f_upgrade) ''ndt'' = ws_proto \<and>
   ws_handshake (\<lambda>s. s) (\<lambda>s. s) ''k''
     [''HTTP/1.1 101 Switching Protocols'', ''Upgrade: websocket'', ''Connection: close'', []]
     (ws_f_connection OR ws_f_upgrade) ''ndt'' = ws_proto \<and>
   ws_handshake (\<lambda>s. s) (\<lambda>s. s) ''k''
     [''HTTP/1.1 101 Switching Protocols'', ''Upgrade: websocket'', ''Connection: Upgrade'',
      ''Sec-WebSocket-Accept: bogus'', []]
     (ws_f_connection OR ws_f_upgrade OR ws_f_sec_ws_accept) ''ndt'' = ws_proto \<and>
   ws_handshake (\<lambda>s. s) (\<lambda>s. s) ''k''
     [''HTTP/1.1 101 Switching Protocols'', ''Upgrade: websocket'', ''Connection: Upgrade'',
      ''Sec-WebSocket-Protocol: c2s'', []]
     (ws_f_connection OR ws_f_upgrade OR ws_f_sec_ws_protocol) ''ndt'' = ws_proto \<and>
   ws_handshake (\<lambda>s. s) (\<lambda>s. s) ''k''
     [''HTTP/1.1 101 Switching Protocols'', ''Upgrade: websocket'', ''Connection: Upgrade'', []]
     (ws_f_connection OR ws_f_upgrade OR ws_f_sec_ws_accept) ''ndt'' = ws_proto \<and>
   ws_header_name ''Connection: close'' = ''connection'' \<and>
   ws_header_value ''Connection: close'' = ''close'' \<and>
   \<not> (\<exists>xs ys. ''close'' = xs @ ''Upgrade'' @ ys) \<and>
   ws_header_name ''Sec-WebSocket-Accept: bogus'' = ''sec-websocket-accept'' \<and>
   ws_header_value ''Sec-WebSocket-Accept: bogus'' = ''bogus'' \<and>
   ws_header_value ''Sec-WebSocket-Protocol: c2s'' = ''c2s'' \<and>
   map ascii_tolower (ws_header_value ''Upgrade: h2c'') = ''h2c''"
proof -
  have names:
    "ws_header_name ''HTTP/1.1 101 Switching Protocols'' = ''http/1.1 101 switching protocols''"
    "ws_header_name ''Upgrade: h2c'' = ''upgrade''"
    "ws_header_name ''Upgrade: websocket'' = ''upgrade''"
    "ws_header_name ''Connection: Upgrade'' = ''connection''"
    "ws_header_name ''Connection: close'' = ''connection''"
    "ws_header_name ''Sec-WebSocket-Accept: bogus'' = ''sec-websocket-accept''"
    "ws_header_name ''Sec-WebSocket-Protocol: c2s'' = ''sec-websocket-protocol''"
    by code_simp+
  have vals:
    "map ascii_tolower (ws_header_value ''Upgrade: h2c'') = ''h2c''"
    "ws_header_value ''Connection: close'' = ''close''"
    "ws_header_value ''Sec-WebSocket-Accept: bogus'' = ''bogus''"
    "ws_header_value ''Sec-WebSocket-Protocol: c2s'' = ''c2s''"
    by code_simp+
  have "\<not> str_contains ''Upgrade'' ''close''" by code_simp
  then have nc: "\<not> (\<exists>xs ys. ''close'' = xs @ ''Upgrade'' @ ys)"
    unfolding str_contains_iff .
  have flags:
    "(ws_f_connection OR ws_f_upgrade) AND ws_f_upgrade \<noteq> 0"
    "(ws_f_connection OR ws_f_upgrade) AND ws_f_connection \<noteq> 0"
    "(ws_f_connection OR ws_f_upgrade OR ws_f_sec_ws_accept) AND ws_f_sec_ws_accept \<noteq> 0"
    "(ws_f_connection OR ws_f_upgrade OR ws_f_sec_ws_protocol) AND ws_f_sec_ws_protocol \<noteq> 0"
    by (simp_all add: ws_f_defs)
  have u: "ws_handshake (\<lambda>s. s) (\<lambda>s. s) ''k''
     [''HTTP/1.1 101 Switching Protocols'', ''Upgrade: h2c'', ''Connection: Upgrade'', []]
     (ws_f_connection OR ws_f_upgrade) ''ndt'' = ws_proto"
    using ws_handshake_rejects [where
      response = "[''HTTP/1.1 101 Switching Protocols'', ''Upgrade: h2c'',
                   ''Connection: Upgrade'', []]"
      and block = "[''HTTP/1.1 101 Switching Protocols'', ''Upgrade: h2c'',
                   ''Connection: Upgrade'']"
      and rest = "[]" and ws_flags = "ws_f_connection OR ws_f_upgrade"
      and ?sha1.0 = "\<lambda>s. s" and ?base64.0 = "\<lambda>s. s" and key = "''k''" and ws_protocol = "''ndt''"]
      flags(1) names(2) vals(1)
    by simp
  have c: "ws_handshake (\<lambda>s. s) (\<lambda>s. s) ''k''
     [''HTTP/1.1 101 Switching Protocols'', ''Upgrade: websocket'', ''Connection: close'', []]
     (ws_f_connection OR ws_f_upgrade) ''ndt'' = ws_proto"
    using ws_handshake_rejects [where
      response = "[''HTTP/1.1 101 Switching Protocols'', ''Upgrade: websocket'',
                   ''Connection: close'', []]"
      and block = "[''HTTP/1.1 101 Switching Protocols'', ''Upgrade: websocket'',
                   ''Connection: close'']"
      and rest = "[]" and ws_flags = "ws_f_connection OR ws_f_upgrade"
      and ?sha1.0 = "\<lambda>s. s" and ?base64.0 = "\<lambda>s. s" and key = "''k''" and ws_protocol = "''ndt''"]
      flags(2) names(5) vals(2) nc
    by simp
  have a: "ws_handshake (\<lambda>s. s) (\<lambda>s. s) ''k''
     [''HTTP/1.1 101 Switching Protocols'', ''Upgrade: websocket'', ''Connection: Upgrade'',
      ''Sec-WebSocket-Accept: bogus'', []]
     (ws_f_connection OR ws_f_upgrade OR ws_f_sec_ws_accept) ''ndt'' = ws_proto"
    using ws_handshake_rejects [where
      response = "[''HTTP/1.1 101 Switching Protocols'', ''Upgrade: websocket'',
                   ''Connection: Upgrade'', ''Sec-WebSocket-Accept: bogus'', []]"
      and block = "[''HTTP/1.1 101 Switching Protocols'', ''Upgrade: websocket'',
                   ''Connection: Upgrade'', ''Sec-WebSocket-Accept: bogus'']"
      and rest = "[]" and ws_flags = "ws_f_connection OR ws_f_upgrade OR ws_f_sec_ws_accept"
      and ?sha1.0 = "\<lambda>s. s" and ?base64.0 = "\<lambda>s. s" and key = "''k''" and ws_protocol = "''ndt''"]
      flags(3) names(6) vals(3)
    by simp
  have p: "ws_handshake (\<lambda>s. s) (\<lambda>s. s) ''k''
     [''HTTP/1.1 101 Switching Protocols'', ''Upgrade: websocket'', ''Connection: Upgrade'',
      ''Sec-WebSocket-Protocol: c2s'', []]
     (ws_f_connection OR ws_f_upgrade OR ws_f_sec_ws_protocol) ''ndt'' = ws_proto"
    using ws_handshake_rejects [where
      response = "[''HTTP/1.1 101 Switching Protocols'', ''Upgrade: websocket'',
                   ''Connection: Upgrade'', ''Sec-WebSocket-Protocol: c2s'', []]"
      and block = "[''HTTP/1.1 101 Switching Protocols'', ''Upgrade: websocket'',
                   ''Connection: Upgrade'', ''Sec-WebSocket-Protocol: c2s'']"
      and rest = "[]" and ws_flags = "ws_f_connection OR ws_f_upgrade OR ws_f_sec_ws_protocol"
      and ?sha1.0 = "\<lambda>s. s" and ?base64.0 = "\<lambda>s. s" and key = "''k''" and ws_protocol = "''ndt''"]
      flags(4) names(7) vals(4)
    by simp
  have m: "ws_handshake (\<lambda>s. s) (\<lambda>s. s) ''k''
     [''HTTP/1.1 101 Switching Protocols'', ''Upgrade: websocket'', ''Connection: Upgrade'', []]
     (ws_f_connection OR ws_f_upgrade OR ws_f_sec_ws_accept) ''ndt'' = ws_proto"
    using ws_handshake_rejects [where
      response = "[''HTTP/1.1 101 Switching Protocols'', ''Upgrade: websocket'',
                   ''Connection: Upgrade'', []]"
      and block = "[''HTTP/1.1 101 Switching Protocols'', ''Upgrade: websocket'',
                   ''Connection: Upgrade'']"
      and rest = "[]" and ws_flags = "ws_f_connection OR ws_f_upgrade OR ws_f_sec_ws_accept"
      and ?sha1.0 = "\<lambda>s. s" and ?base64.0 = "\<lambda>s. s" and key = "''k''" and ws_protocol = "''ndt''"]
      flags(3) names(1,3,4)
    by simp
  from u c a p m names(5,6) vals nc show ?thesis by blast
qed

end
